theory Spec2Isabelle
  imports Complex_Main "HOL-Library.Word" "HOL-Library.Code_Target_Numeral"
begin

section \<open>JavaScript values\<close>

text \<open>
  A JavaScript string is a sequence of UTF-16 code units. Every literal of the source lies in
  Latin-1, where the code unit is the character code, so a literal is written as a HOL string
  and converted by \<open>str\<close>; accented letters, quotes and line feeds are written \<open>CHR 0x..\<close>.
\<close>

type_synonym jsstring = "16 word list"

definition str :: "string \<Rightarrow> jsstring" where
  "str s = map of_char s"

text \<open>
  A Number is NaN, an infinity or a finite value. Only the kind of a number (\<open>typeof\<close>,
  \<open>isNaN\<close>, truthiness) is inspected by the program; no arithmetic is done on payload numbers.
\<close>

datatype jsnum = NaN | PosInfinity | NegInfinity | Finite rat

text \<open>
  An object is the list of its own enumerable string-keyed properties, in the order
  \<open>Object.keys\<close> enumerates them.
\<close>

datatype jsval =
    JUndefined
  | JNull
  | JBool bool
  | JNum jsnum
  | JStr jsstring
  | JArr "jsval list"
  | JObj "(jsstring \<times> jsval) list"

type_synonym row = "(jsstring \<times> jsval) list"

definition intNum :: "int \<Rightarrow> jsval" where
  "intNum i = JNum (Finite (of_int i))"

fun typeof :: "jsval \<Rightarrow> jsstring" where
  "typeof JUndefined = str ''undefined''"
| "typeof JNull = str ''object''"
| "typeof (JBool b) = str ''boolean''"
| "typeof (JNum n) = str ''number''"
| "typeof (JStr s) = str ''string''"
| "typeof (JArr xs) = str ''object''"
| "typeof (JObj kvs) = str ''object''"

text \<open>ToBoolean: what \<open>!x\<close> and \<open>if (x)\<close> test.\<close>

fun truthy :: "jsval \<Rightarrow> bool" where
  "truthy JUndefined = False"
| "truthy JNull = False"
| "truthy (JBool b) = b"
| "truthy (JNum n) = (n \<noteq> NaN \<and> n \<noteq> Finite 0)"
| "truthy (JStr s) = (s \<noteq> [])"
| "truthy (JArr xs) = True"
| "truthy (JObj kvs) = True"

text \<open>White space and line terminators of ECMAScript, as \<open>trim\<close> and \<open>parseInt\<close> strip them.\<close>

definition isWhiteSpace :: "16 word \<Rightarrow> bool" where
  "isWhiteSpace c =
     (c \<in> {0x0009, 0x000A, 0x000B, 0x000C, 0x000D, 0x0020, 0x00A0, 0x1680,
            0x2028, 0x2029, 0x202F, 0x205F, 0x3000, 0xFEFF}
      \<or> (0x2000 \<le> c \<and> c \<le> 0x200A))"

definition trim :: "jsstring \<Rightarrow> jsstring" where
  "trim s = rev (dropWhile isWhiteSpace (rev (dropWhile isWhiteSpace s)))"

definition isDigit :: "16 word \<Rightarrow> bool" where
  "isDigit c = (0x30 \<le> c \<and> c \<le> 0x39)"

definition digitsValue :: "jsstring \<Rightarrow> nat" where
  "digitsValue z = foldl (\<lambda>a c. 10 * a + (unat c - 48)) 0 z"

text \<open>Decimal digits of a natural number.\<close>

fun digitsOf :: "nat \<Rightarrow> jsstring" where
  "digitsOf n =
     (if n < 10 then [of_nat (48 + n)] else digitsOf (n div 10) @ [of_nat (48 + n mod 10)])"

declare digitsOf.simps [simp del]

text \<open>
  The Numbers \<open>parseInt\<close> returns: NaN, an infinity, or a double whose value is an integer.
  \<open>IntFinite\<close> holds the value of such a double; \<open>number\<close> builds it from a mathematical
  integer.
\<close>

datatype jsinteger = IntNaN | IntInfinity | IntNegInfinity | IntFinite int

text \<open>The number of binary digits of a natural number.\<close>

fun bits :: "nat \<Rightarrow> nat" where
  "bits n = (if n = 0 then 0 else Suc (bits (n div 2)))"

declare bits.simps [simp del]

text \<open>
  The double nearest to a natural number: 53 significant bits are kept, the rest is rounded
  to nearest with ties to the even significand, and a result of \<open>2 ^ 1024\<close> or more is
  Infinity (\<open>None\<close>).
\<close>

definition roundDouble :: "nat \<Rightarrow> nat option" where
  "roundDouble n =
     (let e = bits n - 53;
          q = n div 2 ^ e;
          r = n mod 2 ^ e;
          q' = (if 2 ^ e < 2 * r \<or> (2 * r = 2 ^ e \<and> odd q) then q + 1 else q)
      in if q' * 2 ^ e < 2 ^ 1024 then Some (q' * 2 ^ e) else None)"

definition number :: "int \<Rightarrow> jsinteger" where
  "number i =
     (case roundDouble (nat \<bar>i\<bar>) of
        None \<Rightarrow> if i < 0 then IntNegInfinity else IntInfinity
      | Some v \<Rightarrow> IntFinite (if i < 0 then - int v else int v))"

text \<open>The value a Number has as a bound parameter or in a response.\<close>

definition numberValue :: "jsinteger \<Rightarrow> jsval" where
  "numberValue v =
     JNum (case v of
             IntNaN \<Rightarrow> NaN
           | IntInfinity \<Rightarrow> PosInfinity
           | IntNegInfinity \<Rightarrow> NegInfinity
           | IntFinite i \<Rightarrow> Finite (of_int i))"

text \<open>
  \<open>parseInt(s, 10)\<close>: leading white space is stripped, one sign is read, then the longest
  prefix of decimal digits; whatever follows is ignored, and no digit at all gives NaN.
  The result is the Number for the integer the digits denote, negated after a minus sign.
  (Past the 20th significant digit the standard lets an engine read the digits as zeros;
  V8 rounds the exact value, as here.)
\<close>

definition parseInt10 :: "jsstring \<Rightarrow> jsinteger" where
  "parseInt10 input =
     (let s = dropWhile isWhiteSpace input;
          negative = (s \<noteq> [] \<and> hd s = 0x2D);
          s' = (if s \<noteq> [] \<and> (hd s = 0x2B \<or> hd s = 0x2D) then tl s else s);
          z = takeWhile isDigit s'
      in if z = [] then IntNaN
         else number ((if negative then - 1 else 1) * int (digitsValue z)))"

text \<open>
  Number-to-string conversion, as a template literal renders an id. For a positive double
  \<open>x\<close> of \<open>n\<close> decimal digits it takes the fewest digits \<open>s\<close> (\<open>k\<close> of them) such that
  \<open>s * 10 ^ (n - k)\<close> rounds to \<open>x\<close>, the nearer of the two candidates when both do, the even
  one on a tie. \<open>shortestFrom\<close> searches from \<open>k\<close> digits upwards; with all \<open>n\<close> digits the
  number itself is found.
\<close>

function shortestFrom :: "nat \<Rightarrow> nat \<Rightarrow> nat \<Rightarrow> nat \<times> nat" where
  "shortestFrom x n k =
     (if n \<le> k then (x, n)
      else
        (let p = 10 ^ (n - k);
             lo = x div p;
             hi = lo + 1;
             okLo = (roundDouble (lo * p) = Some x);
             okHi = (hi < 10 ^ k \<and> roundDouble (hi * p) = Some x)
         in if okLo \<and> okHi
            then (if x - lo * p < hi * p - x then (lo, k)
                  else if hi * p - x < x - lo * p then (hi, k)
                  else if even lo then (lo, k) else (hi, k))
            else if okLo then (lo, k)
            else if okHi then (hi, k)
            else shortestFrom x n (Suc k)))"
  by pat_completeness auto
termination
proof (relation "measure (\<lambda>(x, n, k). n - k)")
  show "wf (measure (\<lambda>(x, n, k). n - k))" by simp
next
  fix x n k :: nat
  assume "\<not> n \<le> k"
  then show "((x, n, Suc k), x, n, k) \<in> measure (\<lambda>(x, n, k). n - k)" by simp
qed

declare shortestFrom.simps [simp del]

text \<open>
  The digits are followed by zeros up to 21 digits in all; a longer number is written with
  an exponent. A double just below a power of ten that this power rounds to is written as
  that power (\<open>1e+23\<close>).
\<close>

definition positiveToString :: "nat \<Rightarrow> jsstring" where
  "positiveToString x =
     (let nd = length (digitsOf x);
          (s, k, n) = (if roundDouble (10 ^ nd) = Some x then (1, 1, nd + 1)
                       else (case shortestFrom x nd 1 of (s, k) \<Rightarrow> (s, k, nd)))
      in if n \<le> 21 then digitsOf s @ replicate (n - k) 0x30
         else (if k = 1 then digitsOf s else hd (digitsOf s) # 0x2E # tl (digitsOf s))
              @ str ''e+'' @ digitsOf (n - 1))"

definition numberToString :: "jsinteger \<Rightarrow> jsstring" where
  "numberToString v =
     (case v of
        IntNaN \<Rightarrow> str ''NaN''
      | IntInfinity \<Rightarrow> str ''Infinity''
      | IntNegInfinity \<Rightarrow> str ''-Infinity''
      | IntFinite i \<Rightarrow>
          if i = 0 then str ''0''
          else if i < 0 then str ''-'' @ positiveToString (nat (- i))
          else positiveToString (nat i))"

text \<open>\<open>Array.prototype.join\<close>.\<close>

fun join :: "jsstring \<Rightarrow> jsstring list \<Rightarrow> jsstring" where
  "join sep [] = []"
| "join sep [x] = x"
| "join sep (x # y # ys) = x @ sep @ join sep (y # ys)"

text \<open>
  Own enumerable properties. An array has its indices as keys, a string its positions; the
  other primitives have none.
\<close>

fun ownEntries :: "jsval \<Rightarrow> (jsstring \<times> jsval) list" where
  "ownEntries (JObj kvs) = kvs"
| "ownEntries (JArr xs) = zip (map digitsOf [0..<length xs]) xs"
| "ownEntries (JStr s) = zip (map digitsOf [0..<length s]) (map (\<lambda>c. JStr [c]) s)"
| "ownEntries v = []"

text \<open>
  Reading a property of a value that is neither undefined nor null. The names the program
  reads are the fifteen column names and the value's own keys, none of which is inherited
  from a prototype, so the lookup is among the own properties; a missing one is undefined.
\<close>

definition ownProp :: "jsval \<Rightarrow> jsstring \<Rightarrow> jsval" where
  "ownProp v k = (case map_of (ownEntries v) k of None \<Rightarrow> JUndefined | Some x \<Rightarrow> x)"

text \<open>
  An Error object: its message and the \<open>status\<close> property the handlers attach (absent on
  errors raised by the repository and by the engine).
\<close>

datatype jserror = JsError (message: jsstring) (status: "nat option")

fun nullish :: "jsval \<Rightarrow> bool" where
  "nullish JUndefined = True"
| "nullish JNull = True"
| "nullish v = False"

fun nullishName :: "jsval \<Rightarrow> jsstring" where
  "nullishName JNull = str ''null''"
| "nullishName v = str ''undefined''"

text \<open>
  The TypeErrors the engine raises on undefined and null. The message text is the engine's
  (V8's wording here); only its being an error without \<open>status\<close> matters below.
\<close>

definition readTypeError :: "jsval \<Rightarrow> jsstring \<Rightarrow> jserror" where
  "readTypeError v k =
     JsError (str ''Cannot read properties of '' @ nullishName v
              @ str ('' (reading '' @ [CHR 0x27]) @ k @ str ([CHR 0x27] @ '')'')) None"

definition destructureTypeError :: "jsval \<Rightarrow> jsstring \<Rightarrow> jserror" where
  "destructureTypeError v k =
     JsError (str (''Cannot destructure property '' @ [CHR 0x27]) @ k
              @ str ([CHR 0x27] @ '' of '' @ [CHR 0x27] @ ''newFeedbackData'' @ [CHR 0x27]
                     @ '' as it is '') @ nullishName v @ str ''.'') None"

definition keysOf :: "jsval \<Rightarrow> jsstring list" where
  "keysOf v = map fst (ownEntries v)"

definition objectKeys :: "jsval \<Rightarrow> jserror + jsstring list" where
  "objectKeys v =
     (if nullish v then Inl (JsError (str ''Cannot convert undefined or null to object'') None)
      else Inr (keysOf v))"

section \<open>The world: database, statements issued, console\<close>

text \<open>
  \<open>src/config/database.js\<close> exports a mysql2 promise pool; the store behind it is outside the
  repository, so it is a parameter. \<open>db.query\<close> resolves to a row array for a SELECT and to a
  result header for INSERT, UPDATE and DELETE; the one entry point is split by statement
  kind, which each repository function fixes by the constant head of its statement. A
  rejected promise is \<open>Inl\<close> of the driver's error. The store has a state of its own, which
  every call may change.
\<close>

record resultSetHeader =
  affectedRows :: nat
  insertId :: nat

record 's database =
  query_rows :: "jsstring \<Rightarrow> jsval list \<Rightarrow> 's \<Rightarrow> (jserror + row list) \<times> 's"
  query_result :: "jsstring \<Rightarrow> jsval list \<Rightarrow> 's \<Rightarrow> (jserror + resultSetHeader) \<times> 's"

datatype logarg = LogText jsstring | LogError jserror | LogStack jserror

datatype logentry = ConsoleLog "logarg list" | ConsoleWarn "logarg list" | ConsoleError "logarg list"

record 's world =
  store :: 's
  issued :: "(jsstring \<times> jsval list) list"
  console :: "logentry list"

definition consoleLog :: "logarg list \<Rightarrow> 's world \<Rightarrow> 's world" where
  "consoleLog args w = w\<lparr>console := console w @ [ConsoleLog args]\<rparr>"

definition consoleWarn :: "logarg list \<Rightarrow> 's world \<Rightarrow> 's world" where
  "consoleWarn args w = w\<lparr>console := console w @ [ConsoleWarn args]\<rparr>"

definition consoleError :: "logarg list \<Rightarrow> 's world \<Rightarrow> 's world" where
  "consoleError args w = w\<lparr>console := console w @ [ConsoleError args]\<rparr>"

text \<open>\<open>await db.query(sql, values)\<close>: the statement is recorded, the store answers.\<close>

definition dbQueryRows ::
  "'s database \<Rightarrow> jsstring \<Rightarrow> jsval list \<Rightarrow> 's world \<Rightarrow> (jserror + row list) \<times> 's world" where
  "dbQueryRows db sql vals w =
     (case query_rows db sql vals (store w) of
        (r, s') \<Rightarrow> (r, w\<lparr>store := s', issued := issued w @ [(sql, vals)]\<rparr>))"

definition dbQueryResult ::
  "'s database \<Rightarrow> jsstring \<Rightarrow> jsval list \<Rightarrow> 's world \<Rightarrow> (jserror + resultSetHeader) \<times> 's world" where
  "dbQueryResult db sql vals w =
     (case query_result db sql vals (store w) of
        (r, s') \<Rightarrow> (r, w\<lparr>store := s', issued := issued w @ [(sql, vals)]\<rparr>))"

section \<open>The repository: \<open>src/models/feedbackModel.js\<close>\<close>

text \<open>The fifteen names \<open>criarFeedback\<close> destructures, in the order of its \<open>values\<close> array.\<close>

definition columns :: "jsstring list" where
  "columns = map str
     [''bus_number'', ''bus_line'', ''excessive_delay'', ''bus_overcrowded'',
      ''lack_of_accessibility'', ''air_conditioning_broken'', ''driver_misconduct'',
      ''route_change'', ''vehicle_poor_condition'', ''comment'', ''boarding_point'',
      ''occurrence_location'', ''overall_rating'', ''safety_rating'',
      ''improvement_suggestions'']"

text \<open>Destructuring throws on undefined and null, and reads any other value's properties.\<close>

definition destructure :: "jsval \<Rightarrow> jsstring list \<Rightarrow> jserror + jsval list" where
  "destructure v names =
     (if nullish v then Inl (destructureTypeError v (hd names))
      else Inr (map (ownProp v) names))"

definition insert_sql :: jsstring where
  "insert_sql = str
     (''INSERT INTO feedback_users ('' @ [CHR 0x0A]
      @ ''                    bus_number, bus_line, excessive_delay, bus_overcrowded,'' @ [CHR 0x0A]
      @ ''                    lack_of_accessibility, air_conditioning_broken, driver_misconduct,'' @ [CHR 0x0A]
      @ ''                    route_change, vehicle_poor_condition, comment, boarding_point,'' @ [CHR 0x0A]
      @ ''                    occurrence_location, overall_rating, safety_rating, improvement_suggestions'' @ [CHR 0x0A]
      @ ''                 ) VALUES (?, ?, ?, ?, ?, ?, ?, ?, ?, ?, ?, ?, ?, ?, ?)'')"

definition criarFeedback ::
  "'s database \<Rightarrow> jsval \<Rightarrow> 's world \<Rightarrow> (jserror + nat) \<times> 's world" where
  "criarFeedback db newFeedbackData w =
     (case destructure newFeedbackData columns of
        Inl e \<Rightarrow> (Inl e, w)
      | Inr vals \<Rightarrow>
          (case dbQueryResult db insert_sql vals w of
             (Inr result, w1) \<Rightarrow>
               (Inr (insertId result),
                consoleLog [LogText (str ''[Model] Feedback inserido com sucesso. ID: ''
                                     @ numberToString (number (int (insertId result))))] w1)
           | (Inl error, w1) \<Rightarrow>
               (Inl (JsError (str ''Erro ao salvar feedback no banco de dados: '' @ message error) None),
                consoleError [LogText (str ''[Model Error] Falha ao inserir feedback:''),
                              LogError error] w1)))"

definition list_sql :: jsstring where
  "list_sql = str ''SELECT * FROM feedback_users ORDER BY submission_datetime DESC''"

text \<open>\<open>db.query(sql)\<close> is called without values here; the statement is recorded with none.\<close>

definition listarFeedbacks ::
  "'s database \<Rightarrow> 's world \<Rightarrow> (jserror + row list) \<times> 's world" where
  "listarFeedbacks db w =
     (case dbQueryRows db list_sql [] w of
        (Inr rows, w1) \<Rightarrow> (Inr rows, w1)
      | (Inl error, w1) \<Rightarrow>
          (Inl (JsError (str ''Erro ao buscar feedbacks no banco de dados: '' @ message error) None),
           consoleError [LogText (str ''[Model Error] Falha ao listar feedbacks:''),
                         LogError error] w1))"

definition select_sql :: jsstring where
  "select_sql = str ''SELECT * FROM feedback_users WHERE id_feedback = ?''"

text \<open>
  \<open>rows.length > 0 ? rows[0] : null\<close>. The parameter \<open>ident\<close> is the source's \<open>id\<close>, a name HOL
  has taken; it is a Number as \<open>parseInt\<close> returns them, which is what the handlers pass.
\<close>

definition buscarFeedbackPorId ::
  "'s database \<Rightarrow> jsinteger \<Rightarrow> 's world \<Rightarrow> (jserror + jsval) \<times> 's world" where
  "buscarFeedbackPorId db ident w =
     (case dbQueryRows db select_sql [numberValue ident] w of
        (Inr rows, w1) \<Rightarrow> (Inr (case rows of [] \<Rightarrow> JNull | r # rest \<Rightarrow> JObj r), w1)
      | (Inl error, w1) \<Rightarrow>
          (Inl (JsError (str ''Erro ao buscar feedback por ID no banco de dados: '' @ message error) None),
           consoleError [LogText (str ''[Model Error] Falha ao buscar feedback por ID:''),
                         LogError error] w1))"

text \<open>
  The SET clause and the statement of \<open>atualizarFeedback\<close>: every key of the caller's object,
  between backticks, followed by a placeholder.
\<close>

definition setClause :: "jsstring list \<Rightarrow> jsstring" where
  "setClause fieldsToUpdate =
     join (str '', '') (map (\<lambda>field. str [CHR 0x60] @ field @ str ([CHR 0x60] @ '' = ?'')) fieldsToUpdate)"

definition update_sql :: "jsstring list \<Rightarrow> jsstring" where
  "update_sql fieldsToUpdate =
     str ''UPDATE feedback_users SET '' @ setClause fieldsToUpdate @ str '' WHERE id_feedback = ?''"

definition atualizarFeedback ::
  "'s database \<Rightarrow> jsinteger \<Rightarrow> jsval \<Rightarrow> 's world \<Rightarrow> (jserror + nat) \<times> 's world" where
  "atualizarFeedback db ident feedbackData w =
     (case objectKeys feedbackData of
        Inl e \<Rightarrow> (Inl e, w)
      | Inr fieldsToUpdate \<Rightarrow>
          if length fieldsToUpdate = 0
          then (Inr 0,
                consoleWarn [LogText (str (''[Model] Tentativa de atualiza'' @ [CHR 0xE7] @ [CHR 0xE3] @ ''o para ID '')
                                      @ numberToString ident @ str '' sem dados fornecidos.'')] w)
          else
            (case dbQueryResult db (update_sql fieldsToUpdate)
                    (map (ownProp feedbackData) fieldsToUpdate @ [numberValue ident]) w of
               (Inr result, w1) \<Rightarrow>
                 (Inr (affectedRows result),
                  consoleLog [LogText (str ''[Model] Tentativa de atualizar feedback ID '' @ numberToString ident
                                       @ str ''. Linhas afetadas: ''
                                       @ numberToString (number (int (affectedRows result))))] w1)
             | (Inl error, w1) \<Rightarrow>
                 (Inl (JsError (str ''Erro ao atualizar feedback no banco de dados: '' @ message error) None),
                  consoleError [LogText (str ''[Model Error] Falha ao atualizar feedback:''),
                                LogError error] w1)))"

definition delete_sql :: jsstring where
  "delete_sql = str ''DELETE FROM feedback_users WHERE id_feedback = ?''"

definition deletarFeedback ::
  "'s database \<Rightarrow> jsinteger \<Rightarrow> 's world \<Rightarrow> (jserror + nat) \<times> 's world" where
  "deletarFeedback db ident w =
     (case dbQueryResult db delete_sql [numberValue ident] w of
        (Inr result, w1) \<Rightarrow>
          (Inr (affectedRows result),
           consoleLog [LogText (str ''[Model] Tentativa de deletar feedback ID '' @ numberToString ident
                                @ str ''. Linhas afetadas: ''
                                @ numberToString (number (int (affectedRows result))))] w1)
      | (Inl error, w1) \<Rightarrow>
          (Inl (JsError (str ''Erro ao deletar feedback no banco de dados: '' @ message error) None),
           consoleError [LogText (str ''[Model Error] Falha ao deletar feedback:''),
                         LogError error] w1))"

section \<open>The handlers: \<open>src/controllers/feedbackController.js\<close>\<close>

text \<open>
  Of the Express request the handlers read \<open>req.params.id\<close>, a string, and \<open>req.body\<close>, the
  value the body parsers left. A handler either sends a response (\<open>Inr\<close>) or hands an error
  to \<open>next\<close> (\<open>Inl\<close>).
\<close>

record request =
  params_id :: jsstring
  body :: jsval

record response =
  statusCode :: nat
  json :: jsval

text \<open>The \<open>catch\<close> block every handler ends with: log the message, then \<open>next(error)\<close>.\<close>

definition catchNext ::
  "jsstring \<Rightarrow> (jserror + response) \<times> 's world \<Rightarrow> (jserror + response) \<times> 's world" where
  "catchNext label r =
     (case r of
        (Inr resp, w) \<Rightarrow> (Inr resp, w)
      | (Inl error, w) \<Rightarrow> (Inl error, consoleError [LogText label, LogText (message error)] w))"

text \<open>
  \<open>!v || typeof v !== 'string' || v.trim() === ''\<close>; the last disjunct is evaluated on strings
  only.
\<close>

definition invalidText :: "jsval \<Rightarrow> bool" where
  "invalidText v =
     (\<not> truthy v \<or> typeof v \<noteq> str ''string'' \<or> (case v of JStr s \<Rightarrow> trim s = [] | _ \<Rightarrow> True))"

text \<open>The loop over \<open>requiredRatings\<close>; the first field that fails throws.\<close>

definition ratingError :: "jsstring \<Rightarrow> jserror" where
  "ratingError field =
     JsError (str (''O campo '' @ [CHR 0x22]) @ field
              @ str ([CHR 0x22] @ '' '' @ [CHR 0xE9] @ '' obrigat'' @ [CHR 0xF3]
                     @ ''rio e deve ser um n'' @ [CHR 0xFA] @ ''mero.'')) (Some 400)"

fun checkRatings :: "jsval \<Rightarrow> jsstring list \<Rightarrow> jserror option" where
  "checkRatings feedbackData [] = None"
| "checkRatings feedbackData (field # rest) =
     (if ownProp feedbackData field = JUndefined
         \<or> typeof (ownProp feedbackData field) \<noteq> str ''number''
      then Some (ratingError field)
      else checkRatings feedbackData rest)"

definition requiredRatings :: "jsstring list" where
  "requiredRatings = [str ''overall_rating'', str ''safety_rating'']"

definition busNumberError :: jserror where
  "busNumberError =
     JsError (str (''O campo '' @ [CHR 0x22] @ ''bus_number'' @ [CHR 0x22] @ '' (N'' @ [CHR 0xFA]
                   @ ''mero do '' @ [CHR 0xF4] @ ''nibus) '' @ [CHR 0xE9] @ '' obrigat'' @ [CHR 0xF3]
                   @ ''rio e deve ser um texto n'' @ [CHR 0xE3] @ ''o vazio.'')) (Some 400)"

definition busLineError :: jserror where
  "busLineError =
     JsError (str (''O campo '' @ [CHR 0x22] @ ''bus_line'' @ [CHR 0x22] @ '' (Linha do '' @ [CHR 0xF4]
                   @ ''nibus) '' @ [CHR 0xE9] @ '' obrigat'' @ [CHR 0xF3]
                   @ ''rio e deve ser um texto n'' @ [CHR 0xE3] @ ''o vazio.'')) (Some 400)"

definition criarNovoFeedback_try ::
  "'s database \<Rightarrow> request \<Rightarrow> 's world \<Rightarrow> (jserror + response) \<times> 's world" where
  "criarNovoFeedback_try db req w =
     (let feedbackData = body req in
      if nullish feedbackData then (Inl (readTypeError feedbackData (str ''bus_number'')), w)
      else if invalidText (ownProp feedbackData (str ''bus_number'')) then (Inl busNumberError, w)
      else if invalidText (ownProp feedbackData (str ''bus_line'')) then (Inl busLineError, w)
      else
        (case checkRatings feedbackData requiredRatings of
           Some error \<Rightarrow> (Inl error, w)
         | None \<Rightarrow>
             (case criarFeedback db feedbackData w of
                (Inr feedbackId, w1) \<Rightarrow>
                  (Inr \<lparr>statusCode = 201,
                        json = JObj [(str ''id'', numberValue (number (int feedbackId))),
                                     (str ''message'', JStr (str ''Feedback criado com sucesso!''))]\<rparr>,
                   w1)
              | (Inl error, w1) \<Rightarrow> (Inl error, w1))))"

definition criarNovoFeedback ::
  "'s database \<Rightarrow> request \<Rightarrow> 's world \<Rightarrow> (jserror + response) \<times> 's world" where
  "criarNovoFeedback db req w =
     catchNext (str ''[Controller Error] Falha ao criar feedback:'') (criarNovoFeedback_try db req w)"

definition obterTodosFeedbacks ::
  "'s database \<Rightarrow> request \<Rightarrow> 's world \<Rightarrow> (jserror + response) \<times> 's world" where
  "obterTodosFeedbacks db req w =
     catchNext (str ''[Controller Error] Falha ao obter todos os feedbacks:'')
       (case listarFeedbacks db w of
          (Inr feedbacks, w1) \<Rightarrow> (Inr \<lparr>statusCode = 200, json = JArr (map JObj feedbacks)\<rparr>, w1)
        | (Inl error, w1) \<Rightarrow> (Inl error, w1))"

text \<open>\<open>isNaN(id) || id <= 0\<close> on the result of \<open>parseInt(req.params.id, 10)\<close>.\<close>

definition invalidId :: "jsinteger \<Rightarrow> bool" where
  "invalidId r =
     (case r of
        IntNaN \<Rightarrow> True
      | IntInfinity \<Rightarrow> False
      | IntNegInfinity \<Rightarrow> True
      | IntFinite n \<Rightarrow> n \<le> 0)"

definition getIdError :: jserror where
  "getIdError =
     JsError (str (''O ID fornecido na URL '' @ [CHR 0xE9] @ '' inv'' @ [CHR 0xE1]
                   @ ''lido. Deve ser um n'' @ [CHR 0xFA] @ ''mero inteiro positivo.'')) (Some 400)"

definition obterFeedbackPorId_try ::
  "'s database \<Rightarrow> request \<Rightarrow> 's world \<Rightarrow> (jserror + response) \<times> 's world" where
  "obterFeedbackPorId_try db req w =
     (let ident = parseInt10 (params_id req) in
      if invalidId ident then (Inl getIdError, w)
      else
        (case buscarFeedbackPorId db ident w of
           (Inr feedback, w1) \<Rightarrow>
             if truthy feedback then (Inr \<lparr>statusCode = 200, json = feedback\<rparr>, w1)
             else (Inl (JsError (str ''Feedback com ID '' @ numberToString ident
                                 @ str ('' n'' @ [CHR 0xE3] @ ''o encontrado.'')) (Some 404)), w1)
         | (Inl error, w1) \<Rightarrow> (Inl error, w1)))"

definition obterFeedbackPorId ::
  "'s database \<Rightarrow> request \<Rightarrow> 's world \<Rightarrow> (jserror + response) \<times> 's world" where
  "obterFeedbackPorId db req w =
     catchNext (str ''[Controller Error] Falha ao obter feedback por ID ('' @ params_id req @ str ''):'')
       (obterFeedbackPorId_try db req w)"

definition updateIdError :: jserror where
  "updateIdError =
     JsError (str (''O ID fornecido na URL para atualiza'' @ [CHR 0xE7] @ [CHR 0xE3] @ ''o ''
                   @ [CHR 0xE9] @ '' inv'' @ [CHR 0xE1] @ ''lido.'')) (Some 400)"

definition emptyBodyError :: jserror where
  "emptyBodyError =
     JsError (str (''Nenhum dado foi fornecido no corpo da requisi'' @ [CHR 0xE7] @ [CHR 0xE3]
                   @ ''o para atualiza'' @ [CHR 0xE7] @ [CHR 0xE3] @ ''o.'')) (Some 400)"

definition updatedMessage :: "jsinteger \<Rightarrow> jsstring" where
  "updatedMessage ident = str ''Feedback com ID '' @ numberToString ident @ str '' atualizado com sucesso.''"

definition noChangeMessage :: "jsinteger \<Rightarrow> jsstring" where
  "noChangeMessage ident =
     str (''Nenhuma altera'' @ [CHR 0xE7] @ [CHR 0xE3] @ ''o aplicada ao feedback com ID '')
     @ numberToString ident
     @ str (''. Os dados podem ser os mesmos j'' @ [CHR 0xE1] @ '' existentes.'')"

definition updateNotFoundError :: "jsinteger \<Rightarrow> jserror" where
  "updateNotFoundError ident =
     JsError (str ''Feedback com ID '' @ numberToString ident
              @ str ('' n'' @ [CHR 0xE3] @ ''o encontrado para atualiza'' @ [CHR 0xE7] @ [CHR 0xE3] @ ''o.''))
       (Some 404)"

definition atualizarUmFeedback_try ::
  "'s database \<Rightarrow> request \<Rightarrow> 's world \<Rightarrow> (jserror + response) \<times> 's world" where
  "atualizarUmFeedback_try db req w =
     (let ident = parseInt10 (params_id req); feedbackData = body req in
      if invalidId ident then (Inl updateIdError, w)
      else if \<not> truthy feedbackData \<or> length (keysOf feedbackData) = 0 then (Inl emptyBodyError, w)
      else
        (case atualizarFeedback db ident feedbackData w of
           (Inl error, w1) \<Rightarrow> (Inl error, w1)
         | (Inr affected, w1) \<Rightarrow>
             if affected > 0
             then
               (case buscarFeedbackPorId db ident w1 of
                  (Inl error, w2) \<Rightarrow> (Inl error, w2)
                | (Inr feedbackAtualizado, w2) \<Rightarrow>
                    (Inr \<lparr>statusCode = 200,
                          json = JObj [(str ''message'', JStr (updatedMessage ident)),
                                       (str ''feedback'', feedbackAtualizado)]\<rparr>, w2))
             else
               (case buscarFeedbackPorId db ident w1 of
                  (Inl error, w2) \<Rightarrow> (Inl error, w2)
                | (Inr feedbackExistente, w2) \<Rightarrow>
                    if \<not> truthy feedbackExistente then (Inl (updateNotFoundError ident), w2)
                    else
                      (Inr \<lparr>statusCode = 200,
                            json = JObj [(str ''message'', JStr (noChangeMessage ident)),
                                         (str ''feedback'', feedbackExistente)]\<rparr>, w2))))"

definition atualizarUmFeedback ::
  "'s database \<Rightarrow> request \<Rightarrow> 's world \<Rightarrow> (jserror + response) \<times> 's world" where
  "atualizarUmFeedback db req w =
     catchNext (str ''[Controller Error] Falha ao atualizar feedback ID '' @ params_id req @ str '':'')
       (atualizarUmFeedback_try db req w)"

definition deleteIdError :: jserror where
  "deleteIdError =
     JsError (str (''O ID fornecido na URL para dele'' @ [CHR 0xE7] @ [CHR 0xE3] @ ''o ''
                   @ [CHR 0xE9] @ '' inv'' @ [CHR 0xE1] @ ''lido.'')) (Some 400)"

definition deletarUmFeedback_try ::
  "'s database \<Rightarrow> request \<Rightarrow> 's world \<Rightarrow> (jserror + response) \<times> 's world" where
  "deletarUmFeedback_try db req w =
     (let ident = parseInt10 (params_id req) in
      if invalidId ident then (Inl deleteIdError, w)
      else
        (case deletarFeedback db ident w of
           (Inl error, w1) \<Rightarrow> (Inl error, w1)
         | (Inr affected, w1) \<Rightarrow>
             if affected > 0
             then (Inr \<lparr>statusCode = 200,
                        json = JObj [(str ''message'',
                                      JStr (str ''Feedback com ID '' @ numberToString ident
                                            @ str '' deletado com sucesso.''))]\<rparr>, w1)
             else (Inl (JsError (str ''Feedback com ID '' @ numberToString ident
                                 @ str ('' n'' @ [CHR 0xE3] @ ''o encontrado para dele'' @ [CHR 0xE7]
                                        @ [CHR 0xE3] @ ''o.'')) (Some 404)), w1)))"

definition deletarUmFeedback ::
  "'s database \<Rightarrow> request \<Rightarrow> 's world \<Rightarrow> (jserror + response) \<times> 's world" where
  "deletarUmFeedback db req w =
     catchNext (str ''[Controller Error] Falha ao deletar feedback ID '' @ params_id req @ str '':'')
       (deletarUmFeedback_try db req w)"

section \<open>The application: \<open>app.js\<close>\<close>

text \<open>
  The error middleware: \<open>err.status || 500\<close> and \<open>err.message || '...'\<close>; it logs
  \<open>err.stack || err.message || err\<close>, the stack of an Error object.
\<close>

definition errorMiddleware :: "jserror \<Rightarrow> 's world \<Rightarrow> response \<times> 's world" where
  "errorMiddleware err w =
     (\<lparr>statusCode = (case status err of None \<Rightarrow> 500 | Some n \<Rightarrow> if n = 0 then 500 else n),
       json = JObj [(str ''message'',
                     JStr (if message err = [] then str ''Ocorreu um erro interno no servidor.''
                           else message err))]\<rparr>,
      consoleError [LogText (str (''ERRO N'' @ [CHR 0xC3] @ ''O TRATADO:'')), LogStack err] w)"

text \<open>A route: the handler's response, or the error middleware's when the handler called \<open>next\<close>.\<close>

definition route ::
  "('s database \<Rightarrow> request \<Rightarrow> 's world \<Rightarrow> (jserror + response) \<times> 's world)
   \<Rightarrow> 's database \<Rightarrow> request \<Rightarrow> 's world \<Rightarrow> response \<times> 's world" where
  "route handler db req w =
     (case handler db req w of
        (Inr resp, w1) \<Rightarrow> (resp, w1)
      | (Inl err, w1) \<Rightarrow> errorMiddleware err w1)"

section \<open>Vocabulary of the specification\<close>

text \<open>The properties below are stated with the specification's words, defined here.\<close>

text \<open>A non-empty string: a string with a character that is not white space.\<close>

definition nonEmptyText :: "jsval \<Rightarrow> bool" where
  "nonEmptyText v = (case v of JStr s \<Rightarrow> \<not> list_all isWhiteSpace s | _ \<Rightarrow> False)"

text \<open>A numeric value: a value of type number.\<close>

definition numeric :: "jsval \<Rightarrow> bool" where
  "numeric v = (case v of JNum n \<Rightarrow> True | _ \<Rightarrow> False)"

text \<open>
  A path identifier that is a positive integer: one or more decimal digits, not all of them
  zero.
\<close>

definition positiveInteger :: "jsstring \<Rightarrow> bool" where
  "positiveInteger pid =
     (pid \<noteq> [] \<and> list_all isDigit pid \<and> list_ex (\<lambda>c. c \<noteq> 0x30) pid)"

text \<open>The response the client gets for an error with a status and a message.\<close>

definition errorResponse :: "nat \<Rightarrow> jsstring \<Rightarrow> response" where
  "errorResponse code msg = \<lparr>statusCode = code, json = JObj [(str ''message'', JStr msg)]\<rparr>"

section \<open>Test doubles\<close>

text \<open>
  A store that answers every SELECT with the same rows (or error) and every other statement
  with the same header (or error), and an initial world; the concrete instances below run
  on them.
\<close>

definition answering ::
  "(jserror + row list) \<Rightarrow> (jserror + resultSetHeader) \<Rightarrow> unit database" where
  "answering rows hdr =
     \<lparr>query_rows = (\<lambda>sql vals s. (rows, s)), query_result = (\<lambda>sql vals s. (hdr, s))\<rparr>"

definition w0 :: "unit world" where
  "w0 = \<lparr>store = (), issued = [], console = []\<rparr>"

definition refused :: jserror where
  "refused = JsError (str ''connect ECONNREFUSED 127.0.0.1:3306'') None"

definition tooLong :: jserror where
  "tooLong =
     JsError (str (''Data too long for column '' @ [CHR 0x27] @ ''bus_number'' @ [CHR 0x27]
                   @ '' at row 1'')) None"

definition samplePayload :: jsval where
  "samplePayload =
     JObj [(str ''bus_number'', JStr (str ''XYZ-123'')), (str ''bus_line'', JStr (str ''101'')),
           (str ''overall_rating'', intNum 4), (str ''safety_rating'', intNum 5)]"

text \<open>Payloads that fail the second, the third and the fourth check of a creation.\<close>

definition blankLinePayload :: jsval where
  "blankLinePayload =
     JObj [(str ''bus_number'', JStr (str ''XYZ-123'')), (str ''bus_line'', JStr (str ''   ''))]"

definition textRatingPayload :: jsval where
  "textRatingPayload =
     JObj [(str ''bus_number'', JStr (str ''XYZ-123'')), (str ''bus_line'', JStr (str ''101'')),
           (str ''overall_rating'', JStr (str ''4'')), (str ''safety_rating'', intNum 5)]"

definition noSafetyPayload :: jsval where
  "noSafetyPayload =
     JObj [(str ''bus_number'', JStr (str ''XYZ-123'')), (str ''bus_line'', JStr (str ''101'')),
           (str ''overall_rating'', intNum 4)]"

text \<open>The sample payload with two keys that are no column of a creation.\<close>

definition paddedPayload :: jsval where
  "paddedPayload =
     JObj [(str ''is_admin'', JBool True),
           (str ''bus_number'', JStr (str ''XYZ-123'')), (str ''bus_line'', JStr (str ''101'')),
           (str ''overall_rating'', intNum 4), (str ''safety_rating'', intNum 5),
           (str ''submission_datetime'', JStr (str ''1970-01-01''))]"

text \<open>A payload whose overall rating is NaN.\<close>

definition nanPayload :: jsval where
  "nanPayload =
     JObj [(str ''bus_number'', JStr (str ''XYZ-123'')), (str ''bus_line'', JStr (str ''101'')),
           (str ''overall_rating'', JNum NaN), (str ''safety_rating'', intNum 5)]"

text \<open>A payload whose \<open>bus_number\<close> is longer than the 50 characters of its column.\<close>

definition longPayload :: jsval where
  "longPayload =
     JObj [(str ''bus_number'', JStr (replicate 51 0x58)), (str ''bus_line'', JStr (str ''101'')),
           (str ''overall_rating'', intNum 4), (str ''safety_rating'', intNum 5)]"

text \<open>
  A key that is no column name: \<open>bus_line` = 'x', `comment\<close>, and an update body that
  carries it.
\<close>

definition injectionKey :: jsstring where
  "injectionKey =
     str (''bus_line'' @ [CHR 0x60] @ '' = '' @ [CHR 0x27] @ ''x'' @ [CHR 0x27] @ '', ''
          @ [CHR 0x60] @ ''comment'')"

definition injectionPatch :: jsval where
  "injectionPatch = JObj [(injectionKey, JStr (str ''noisy''))]"

text \<open>
  A store that holds rows under the id a request names: a SELECT by id answers with them,
  and an UPDATE that sets \<open>id_feedback\<close> affects them and leaves none under that id.
\<close>

definition renumberingStore :: "(row list) database" where
  "renumberingStore =
     \<lparr>query_rows = (\<lambda>sql vals s. (Inr s, s)),
      query_result = (\<lambda>sql vals s. (Inr \<lparr>affectedRows = length s, insertId = 0\<rparr>, []))\<rparr>"

definition sampleRow :: row where
  "sampleRow =
     [(str ''id_feedback'', intNum 3), (str ''bus_number'', JStr (str ''XYZ-123'')),
      (str ''comment'', JStr (str ''noisy''))]"

definition holdingSample :: "(row list) world" where
  "holdingSample = \<lparr>store = [sampleRow], issued = [], console = []\<rparr>"

text \<open>An update body that sets the id itself.\<close>

definition renumberPatch :: jsval where
  "renumberPatch = JObj [(str ''id_feedback'', intNum 99)]"

section \<open>Auxiliary facts\<close>

lemma typeof_string_iff: "typeof v = str ''string'' \<longleftrightarrow> (\<exists>s. v = JStr s)"
  by (cases v) (simp_all add: str_def)

lemma dropWhile_all: "list_all P xs \<Longrightarrow> dropWhile P xs = []"
  by (induction xs) auto

lemma trim_empty_iff: "trim s = [] \<longleftrightarrow> list_all isWhiteSpace s"
proof
  assume "list_all isWhiteSpace s"
  then show "trim s = []" by (simp add: trim_def dropWhile_all)
next
  assume t: "trim s = []"
  show "list_all isWhiteSpace s"
  proof (rule ccontr)
    assume "\<not> list_all isWhiteSpace s"
    then have ne: "dropWhile isWhiteSpace s \<noteq> []"
      by (simp add: list_all_iff dropWhile_eq_Nil_conv)
    then have "\<not> isWhiteSpace (hd (dropWhile isWhiteSpace s))"
      by (rule hd_dropWhile)
    moreover have "hd (dropWhile isWhiteSpace s) \<in> set (rev (dropWhile isWhiteSpace s))"
      using ne by simp
    ultimately have "dropWhile isWhiteSpace (rev (dropWhile isWhiteSpace s)) \<noteq> []"
      by (auto simp: dropWhile_eq_Nil_conv)
    then show False using t by (simp add: trim_def)
  qed
qed

lemma invalidText_iff: "invalidText v \<longleftrightarrow> \<not> nonEmptyText v"
proof (cases v)
  case (JStr s)
  have "s = [] \<Longrightarrow> list_all isWhiteSpace s" by simp
  then show ?thesis
    using JStr by (auto simp: invalidText_def nonEmptyText_def trim_empty_iff typeof_string_iff)
qed (simp_all add: invalidText_def nonEmptyText_def typeof_string_iff)

lemma not_numeric_iff:
  "(v = JUndefined \<or> typeof v \<noteq> str ''number'') \<longleftrightarrow> \<not> numeric v"
  by (cases v) (simp_all add: numeric_def str_def)

lemma truthy_not_nullish: "truthy v \<Longrightarrow> \<not> nullish v"
  by (cases v) simp_all

text \<open>Integers below \<open>2 ^ 53\<close> are doubles.\<close>

lemma bits_le: "n < 2 ^ k \<Longrightarrow> bits n \<le> k"
proof (induction k arbitrary: n)
  case 0
  then show ?case by (simp add: bits.simps)
next
  case (Suc k)
  show ?case
  proof (cases "n = 0")
    case True
    then show ?thesis by (simp add: bits.simps)
  next
    case False
    have "n div 2 < 2 ^ k" using Suc.prems by auto
    then have "bits (n div 2) \<le> k" by (rule Suc.IH)
    then show ?thesis using False by (subst bits.simps) simp
  qed
qed

lemma roundDouble_exact:
  assumes "n < 2 ^ 53"
  shows "roundDouble n = Some n"
proof -
  have "bits n - 53 = 0"
    using bits_le [OF assms] by simp
  moreover have "n < 2 ^ 1024"
  proof -
    have "(2::nat) ^ 53 \<le> 2 ^ 1024" by (rule power_increasing) simp_all
    with assms show ?thesis by simp
  qed
  ultimately show ?thesis
    by (simp add: roundDouble_def)
qed

lemma number_exact: "\<bar>i\<bar> < 2 ^ 53 \<Longrightarrow> number i = IntFinite i"
  using roundDouble_exact [of "nat \<bar>i\<bar>"]
  by (simp add: number_def nat_less_iff)

lemma console_frame [simp]:
  "issued (consoleLog a w) = issued w" "store (consoleLog a w) = store w"
  "issued (consoleWarn a w) = issued w" "store (consoleWarn a w) = store w"
  "issued (consoleError a w) = issued w" "store (consoleError a w) = store w"
  by (simp_all add: consoleLog_def consoleWarn_def consoleError_def)

text \<open>What one call of the driver leaves behind, whatever it answers.\<close>

lemma dbQueryRows_cases:
  obtains r w1 where "dbQueryRows db sql vals w = (r, w1)"
    and "r = fst (query_rows db sql vals (store w))"
    and "store w1 = snd (query_rows db sql vals (store w))"
    and "issued w1 = issued w @ [(sql, vals)]"
  by (cases "query_rows db sql vals (store w)") (simp add: dbQueryRows_def)

lemma dbQueryResult_cases:
  obtains r w1 where "dbQueryResult db sql vals w = (r, w1)"
    and "r = fst (query_result db sql vals (store w))"
    and "store w1 = snd (query_result db sql vals (store w))"
    and "issued w1 = issued w @ [(sql, vals)]"
  by (cases "query_result db sql vals (store w)") (simp add: dbQueryResult_def)

text \<open>The outcome of \<open>buscarFeedbackPorId\<close> by the driver's answer.\<close>

lemma buscarFeedbackPorId_rows:
  assumes "fst (query_rows db select_sql [numberValue ident] (store w)) = Inr rows"
  shows "fst (buscarFeedbackPorId db ident w) = Inr (case rows of [] \<Rightarrow> JNull | r # rest \<Rightarrow> JObj r)"
proof -
  obtain r w1 where "dbQueryRows db select_sql [numberValue ident] w = (r, w1)"
    and "r = fst (query_rows db select_sql [numberValue ident] (store w))"
    by (rule dbQueryRows_cases)
  with assms show ?thesis by (simp add: buscarFeedbackPorId_def)
qed

lemma buscarFeedbackPorId_failed:
  assumes "fst (query_rows db select_sql [numberValue ident] (store w)) = Inl error"
  shows "fst (buscarFeedbackPorId db ident w)
         = Inl (JsError (str ''Erro ao buscar feedback por ID no banco de dados: '' @ message error) None)"
proof -
  obtain r w1 where "dbQueryRows db select_sql [numberValue ident] w = (r, w1)"
    and "r = fst (query_rows db select_sql [numberValue ident] (store w))"
    by (rule dbQueryRows_cases)
  with assms show ?thesis by (simp add: buscarFeedbackPorId_def)
qed

lemma buscarFeedbackPorId_frame:
  "issued (snd (buscarFeedbackPorId db ident w)) = issued w @ [(select_sql, [numberValue ident])]"
  "store (snd (buscarFeedbackPorId db ident w)) = snd (query_rows db select_sql [numberValue ident] (store w))"
proof -
  obtain r w1 where "dbQueryRows db select_sql [numberValue ident] w = (r, w1)"
    and "store w1 = snd (query_rows db select_sql [numberValue ident] (store w))"
    and "issued w1 = issued w @ [(select_sql, [numberValue ident])]"
    by (rule dbQueryRows_cases)
  then show
    "issued (snd (buscarFeedbackPorId db ident w)) = issued w @ [(select_sql, [numberValue ident])]"
    "store (snd (buscarFeedbackPorId db ident w)) = snd (query_rows db select_sql [numberValue ident] (store w))"
    by (simp_all add: buscarFeedbackPorId_def split: sum.splits)
qed

section \<open>The repository\<close>

text \<open>
  C6. For every id, \<open>atualizarFeedback\<close> called with the empty object returns 0 affected rows,
  not an error, issues no statement and leaves the store as it was, whatever the store would
  have answered.
\<close>

theorem update_empty_object_is_noop:
  "fst (atualizarFeedback db ident (JObj []) w) = Inr 0
   \<and> issued (snd (atualizarFeedback db ident (JObj []) w)) = issued w
   \<and> store (snd (atualizarFeedback db ident (JObj []) w)) = store w"
  by (simp add: atualizarFeedback_def objectKeys_def keysOf_def)

theorem update_empty_object_is_noop_witness:
  "fst (atualizarFeedback (answering (Inl refused) (Inl refused)) (IntFinite 7) (JObj []) w0) = Inr 0
   \<and> issued (snd (atualizarFeedback (answering (Inl refused) (Inl refused)) (IntFinite 7) (JObj []) w0)) = []
   \<and> store (snd (atualizarFeedback (answering (Inl refused) (Inl refused)) (IntFinite 7) (JObj []) w0)) = ()"
  using update_empty_object_is_noop [of "answering (Inl refused) (Inl refused)" "IntFinite 7" w0]
  by (simp add: w0_def)

text \<open>
  C7. \<open>buscarFeedbackPorId\<close> selects by primary key with the id as the one bound parameter.
  When the store answers with no row, the result is null, a value and not an error; when it
  answers with rows, the result is the first of them.
\<close>

theorem getById_absent_is_null:
  assumes "fst (query_rows db select_sql [numberValue ident] (store w)) = Inr rows"
  shows "fst (buscarFeedbackPorId db ident w) = Inr (if rows = [] then JNull else JObj (hd rows))
         \<and> issued (snd (buscarFeedbackPorId db ident w)) = issued w @ [(select_sql, [numberValue ident])]"
  using buscarFeedbackPorId_rows [OF assms] buscarFeedbackPorId_frame(1) [of db ident w]
  by (cases rows) simp_all

theorem getById_absent_is_null_witness:
  "fst (buscarFeedbackPorId (answering (Inr []) (Inl refused)) (IntFinite 999999) w0) = Inr JNull
   \<and> fst (buscarFeedbackPorId (answering (Inr [sampleRow]) (Inl refused)) (IntFinite 3) w0) = Inr (JObj sampleRow)"
  using getById_absent_is_null [of "answering (Inr []) (Inl refused)" "IntFinite 999999" w0 "[]"]
        getById_absent_is_null [of "answering (Inr [sampleRow]) (Inl refused)" "IntFinite 3" w0 "[sampleRow]"]
  by (simp add: answering_def)

text \<open>
  C8. \<open>listarFeedbacks\<close> issues one statement, \<open>SELECT * FROM feedback_users ORDER BY
  submission_datetime DESC\<close>, and returns the rows the store answers with, all of them and in
  the store's order, which that clause asks to be the most recent first. An empty answer is
  returned as the empty sequence, not as an error.
\<close>

theorem listAll_returns_store_rows:
  assumes "fst (query_rows db list_sql [] (store w)) = Inr rows"
  shows "fst (listarFeedbacks db w) = Inr rows
         \<and> issued (snd (listarFeedbacks db w))
             = issued w @ [(str ''SELECT * FROM feedback_users ORDER BY submission_datetime DESC'', [])]"
proof -
  obtain r w1 where "dbQueryRows db list_sql [] w = (r, w1)"
    and "r = fst (query_rows db list_sql [] (store w))"
    and "issued w1 = issued w @ [(list_sql, [])]"
    by (rule dbQueryRows_cases)
  with assms show ?thesis by (simp add: listarFeedbacks_def list_sql_def)
qed

theorem listAll_returns_store_rows_witness:
  "fst (listarFeedbacks (answering (Inr []) (Inl refused)) w0) = Inr []
   \<and> fst (listarFeedbacks (answering (Inr [sampleRow, []]) (Inl refused)) w0) = Inr [sampleRow, []]"
  using listAll_returns_store_rows [of "answering (Inr []) (Inl refused)" w0 "[]"]
        listAll_returns_store_rows [of "answering (Inr [sampleRow, []]) (Inl refused)" w0 "[sampleRow, []]"]
  by (simp add: answering_def)

section \<open>Creating a feedback\<close>

lemma destructure_object: "\<not> nullish d \<Longrightarrow> destructure d names = Inr (map (ownProp d) names)"
  by (simp add: destructure_def)

lemma criarFeedback_frame:
  assumes "\<not> nullish d"
  shows "issued (snd (criarFeedback db d w)) = issued w @ [(insert_sql, map (ownProp d) columns)]"
proof -
  obtain r w1 where "dbQueryResult db insert_sql (map (ownProp d) columns) w = (r, w1)"
    and "issued w1 = issued w @ [(insert_sql, map (ownProp d) columns)]"
    by (rule dbQueryResult_cases)
  with assms show ?thesis
    by (simp add: criarFeedback_def destructure_object split: sum.splits)
qed

lemma checkRatings_required:
  "checkRatings d requiredRatings =
     (if \<not> numeric (ownProp d (str ''overall_rating'')) then Some (ratingError (str ''overall_rating''))
      else if \<not> numeric (ownProp d (str ''safety_rating'')) then Some (ratingError (str ''safety_rating''))
      else None)"
  using not_numeric_iff [of "ownProp d (str ''overall_rating'')"]
        not_numeric_iff [of "ownProp d (str ''safety_rating'')"]
  by (simp add: requiredRatings_def)

text \<open>The \<open>try\<close> block of \<open>criarNovoFeedback\<close>, with its tests in the specification's words.\<close>

lemma criarNovoFeedback_try_cases:
  assumes "\<not> nullish (body req)"
  shows "criarNovoFeedback_try db req w =
     (if \<not> nonEmptyText (ownProp (body req) (str ''bus_number'')) then (Inl busNumberError, w)
      else if \<not> nonEmptyText (ownProp (body req) (str ''bus_line'')) then (Inl busLineError, w)
      else if \<not> numeric (ownProp (body req) (str ''overall_rating''))
        then (Inl (ratingError (str ''overall_rating'')), w)
      else if \<not> numeric (ownProp (body req) (str ''safety_rating''))
        then (Inl (ratingError (str ''safety_rating'')), w)
      else (case criarFeedback db (body req) w of
              (Inr feedbackId, w1) \<Rightarrow>
                (Inr \<lparr>statusCode = 201,
                      json = JObj [(str ''id'', numberValue (number (int feedbackId))),
                                   (str ''message'', JStr (str ''Feedback criado com sucesso!''))]\<rparr>, w1)
            | (Inl error, w1) \<Rightarrow> (Inl error, w1)))"
  using assms
  by (simp add: criarNovoFeedback_try_def Let_def invalidText_iff checkRatings_required)

text \<open>An error with a status of its own and a message reaches the client as they are.\<close>

lemma route_rejected:
  assumes "handler db req w = (Inl (JsError msg (Some code)), w1)" and "code \<noteq> 0" and "msg \<noteq> []"
  shows "fst (route handler db req w) = errorResponse code msg"
    and "issued (snd (route handler db req w)) = issued w1"
  using assms by (simp_all add: route_def errorMiddleware_def errorResponse_def)

lemma route_frame: "issued (snd (route handler db req w)) = issued (snd (handler db req w))"
  by (simp add: route_def errorMiddleware_def split: prod.splits sum.splits)

lemma catchNext_frame: "issued (snd (catchNext label r)) = issued (snd r)"
  by (simp add: catchNext_def split: prod.splits sum.splits)

lemma catchNext_Inl:
  "catchNext label (Inl e, w) = (Inl e, consoleError [LogText label, LogText (message e)] w)"
  by (simp add: catchNext_def)

lemma validation_messages_nonempty:
  "message busNumberError \<noteq> []" "message busLineError \<noteq> []" "message (ratingError f) \<noteq> []"
  "status busNumberError = Some 400" "status busLineError = Some 400" "status (ratingError f) = Some 400"
  by (simp_all add: busNumberError_def busLineError_def ratingError_def str_def)

lemma handler_rejected:
  assumes "handler db req w = catchNext label t" and "t = (Inl e, w1)"
    and "status e = Some code" and "code \<noteq> 0" and "message e \<noteq> []"
  shows "fst (route handler db req w) = errorResponse code (message e)
         \<and> issued (snd (route handler db req w)) = issued w1"
proof -
  have "handler db req w
        = (Inl (JsError (message e) (Some code)), consoleError [LogText label, LogText (message e)] w1)"
    using assms(1,2,3) by (cases e) (simp add: catchNext_Inl)
  then show ?thesis
    using route_rejected [where handler = handler and db = db and req = req and w = w
                           and msg = "message e" and code = code] assms(4,5)
    by simp
qed

lemma create_rejected:
  assumes "criarNovoFeedback_try db req w = (Inl e, w)" and "status e = Some 400" and "message e \<noteq> []"
  shows "fst (route criarNovoFeedback db req w) = errorResponse 400 (message e)
         \<and> issued (snd (route criarNovoFeedback db req w)) = issued w"
  using handler_rejected [of criarNovoFeedback db req w _ _ e w 400] assms
  by (simp add: criarNovoFeedback_def)

lemma create_accepted:
  assumes "\<not> nullish (body req)"
    and "nonEmptyText (ownProp (body req) (str ''bus_number''))"
    and "nonEmptyText (ownProp (body req) (str ''bus_line''))"
    and "numeric (ownProp (body req) (str ''overall_rating''))"
    and "numeric (ownProp (body req) (str ''safety_rating''))"
  shows "issued (snd (route criarNovoFeedback db req w))
         = issued w @ [(insert_sql, map (ownProp (body req)) columns)]"
proof -
  obtain r w1 where c: "criarFeedback db (body req) w = (r, w1)"
    by (cases "criarFeedback db (body req) w")
  moreover have "issued w1 = issued w @ [(insert_sql, map (ownProp (body req)) columns)]"
    using criarFeedback_frame [OF assms(1), of db w] c by simp
  ultimately have "issued (snd (criarNovoFeedback_try db req w))
             = issued w @ [(insert_sql, map (ownProp (body req)) columns)]"
    using assms(2-5) by (cases r) (simp_all add: criarNovoFeedback_try_cases [OF assms(1)])
  then show ?thesis
    by (simp add: route_frame criarNovoFeedback_def catchNext_frame)
qed

text \<open>
  C4. A create payload (a request body that is neither undefined nor null) is checked in the
  order \<open>bus_number\<close>, \<open>bus_line\<close>, \<open>overall_rating\<close>, \<open>safety_rating\<close>, and the first check that
  fails decides the message: a \<open>bus_number\<close> or \<open>bus_line\<close> that is not a string with a
  character other than white space, or a rating that is not a number, gives HTTP 400 and no
  statement is issued. A payload that passes the four checks reaches the repository: the
  INSERT is issued with the payload's fifteen column values.
\<close>

theorem create_validation_order:
  assumes "\<not> nullish (body req)"
  shows
    "(\<not> nonEmptyText (ownProp (body req) (str ''bus_number'')) \<longrightarrow>
        fst (route criarNovoFeedback db req w) = errorResponse 400 (message busNumberError)
        \<and> issued (snd (route criarNovoFeedback db req w)) = issued w)
   \<and> (nonEmptyText (ownProp (body req) (str ''bus_number''))
        \<and> \<not> nonEmptyText (ownProp (body req) (str ''bus_line'')) \<longrightarrow>
        fst (route criarNovoFeedback db req w) = errorResponse 400 (message busLineError)
        \<and> issued (snd (route criarNovoFeedback db req w)) = issued w)
   \<and> (nonEmptyText (ownProp (body req) (str ''bus_number''))
        \<and> nonEmptyText (ownProp (body req) (str ''bus_line''))
        \<and> \<not> numeric (ownProp (body req) (str ''overall_rating'')) \<longrightarrow>
        fst (route criarNovoFeedback db req w)
          = errorResponse 400 (message (ratingError (str ''overall_rating'')))
        \<and> issued (snd (route criarNovoFeedback db req w)) = issued w)
   \<and> (nonEmptyText (ownProp (body req) (str ''bus_number''))
        \<and> nonEmptyText (ownProp (body req) (str ''bus_line''))
        \<and> numeric (ownProp (body req) (str ''overall_rating''))
        \<and> \<not> numeric (ownProp (body req) (str ''safety_rating'')) \<longrightarrow>
        fst (route criarNovoFeedback db req w)
          = errorResponse 400 (message (ratingError (str ''safety_rating'')))
        \<and> issued (snd (route criarNovoFeedback db req w)) = issued w)
   \<and> (nonEmptyText (ownProp (body req) (str ''bus_number''))
        \<and> nonEmptyText (ownProp (body req) (str ''bus_line''))
        \<and> numeric (ownProp (body req) (str ''overall_rating''))
        \<and> numeric (ownProp (body req) (str ''safety_rating'')) \<longrightarrow>
        issued (snd (route criarNovoFeedback db req w))
          = issued w @ [(insert_sql, map (ownProp (body req)) columns)])"
  using create_rejected [of db req w] validation_messages_nonempty create_accepted [OF assms, of db w]
  by (simp add: criarNovoFeedback_try_cases [OF assms])

theorem create_validation_order_witness:
  "fst (route criarNovoFeedback (answering (Inr []) (Inl refused)) \<lparr>params_id = [], body = JObj []\<rparr> w0)
     = errorResponse 400 (message busNumberError)
   \<and> issued (snd (route criarNovoFeedback (answering (Inr []) (Inl refused))
                      \<lparr>params_id = [], body = JObj []\<rparr> w0)) = []
   \<and> fst (route criarNovoFeedback (answering (Inr []) (Inl refused))
             \<lparr>params_id = [], body = blankLinePayload\<rparr> w0)
     = errorResponse 400 (message busLineError)
   \<and> fst (route criarNovoFeedback (answering (Inr []) (Inl refused))
             \<lparr>params_id = [], body = textRatingPayload\<rparr> w0)
     = errorResponse 400 (message (ratingError (str ''overall_rating'')))
   \<and> fst (route criarNovoFeedback (answering (Inr []) (Inl refused))
             \<lparr>params_id = [], body = noSafetyPayload\<rparr> w0)
     = errorResponse 400 (message (ratingError (str ''safety_rating'')))
   \<and> issued (snd (route criarNovoFeedback (answering (Inr []) (Inl refused))
                      \<lparr>params_id = [], body = samplePayload\<rparr> w0))
     = [(insert_sql, map (ownProp samplePayload) columns)]"
proof -
  note defs = nonEmptyText_def numeric_def ownProp_def str_def isWhiteSpace_def intNum_def w0_def
  have "fst (route criarNovoFeedback (answering (Inr []) (Inl refused)) \<lparr>params_id = [], body = JObj []\<rparr> w0)
          = errorResponse 400 (message busNumberError)
        \<and> issued (snd (route criarNovoFeedback (answering (Inr []) (Inl refused))
                          \<lparr>params_id = [], body = JObj []\<rparr> w0)) = []"
    using create_validation_order
            [of "\<lparr>params_id = [], body = JObj []\<rparr>" "answering (Inr []) (Inl refused)" w0]
    by (simp add: defs)
  moreover have "fst (route criarNovoFeedback (answering (Inr []) (Inl refused))
                       \<lparr>params_id = [], body = blankLinePayload\<rparr> w0)
                 = errorResponse 400 (message busLineError)"
    using create_validation_order
            [of "\<lparr>params_id = [], body = blankLinePayload\<rparr>" "answering (Inr []) (Inl refused)" w0]
    by (simp add: defs blankLinePayload_def)
  moreover have "fst (route criarNovoFeedback (answering (Inr []) (Inl refused))
                       \<lparr>params_id = [], body = textRatingPayload\<rparr> w0)
                 = errorResponse 400 (message (ratingError (str ''overall_rating'')))"
    using create_validation_order
            [of "\<lparr>params_id = [], body = textRatingPayload\<rparr>" "answering (Inr []) (Inl refused)" w0]
    by (simp add: defs textRatingPayload_def)
  moreover have "fst (route criarNovoFeedback (answering (Inr []) (Inl refused))
                       \<lparr>params_id = [], body = noSafetyPayload\<rparr> w0)
                 = errorResponse 400 (message (ratingError (str ''safety_rating'')))"
    using create_validation_order
            [of "\<lparr>params_id = [], body = noSafetyPayload\<rparr>" "answering (Inr []) (Inl refused)" w0]
    by (simp add: defs noSafetyPayload_def)
  moreover have "issued (snd (route criarNovoFeedback (answering (Inr []) (Inl refused))
                               \<lparr>params_id = [], body = samplePayload\<rparr> w0))
                 = [(insert_sql, map (ownProp samplePayload) columns)]"
  proof -
    have "\<not> nullish samplePayload"
      by (simp add: samplePayload_def)
    moreover have "nonEmptyText (ownProp samplePayload (str ''bus_number''))"
      "nonEmptyText (ownProp samplePayload (str ''bus_line''))"
      "numeric (ownProp samplePayload (str ''overall_rating''))"
      "numeric (ownProp samplePayload (str ''safety_rating''))"
      by (simp_all add: defs samplePayload_def)
    ultimately show ?thesis
      using create_validation_order
              [of "\<lparr>params_id = [], body = samplePayload\<rparr>" "answering (Inr []) (Inl refused)" w0]
      by (simp add: w0_def)
  qed
  ultimately show ?thesis by simp
qed

text \<open>
  C9. There is a create payload whose \<open>overall_rating\<close> is NaN that passes the handler's
  checks, which ask only for a defined value of type number, and reaches the repository:
  the INSERT is issued with NaN among its values.
\<close>

theorem nan_rating_reaches_insert:
  "\<exists>payload. ownProp payload (str ''overall_rating'') = JNum NaN
     \<and> (\<forall>db w. issued (snd (route criarNovoFeedback db \<lparr>params_id = [], body = payload\<rparr> w))
                  = issued w @ [(insert_sql, map (ownProp payload) columns)])
     \<and> JNum NaN \<in> set (map (ownProp payload) columns)"
proof (intro exI [of _ nanPayload] conjI allI)
  show nan: "ownProp nanPayload (str ''overall_rating'') = JNum NaN"
    by (simp add: ownProp_def nanPayload_def str_def)
  have "str ''overall_rating'' \<in> set columns"
    by (simp add: columns_def)
  then show "JNum NaN \<in> set (map (ownProp nanPayload) columns)"
    using nan by force
  fix db :: "'s database" and w :: "'s world"
  have "nonEmptyText (ownProp nanPayload (str ''bus_number''))"
       "nonEmptyText (ownProp nanPayload (str ''bus_line''))"
       "numeric (ownProp nanPayload (str ''safety_rating''))"
    by (simp_all add: nonEmptyText_def numeric_def ownProp_def nanPayload_def str_def
                      isWhiteSpace_def intNum_def)
  moreover have "numeric (ownProp nanPayload (str ''overall_rating''))"
    by (simp add: nan numeric_def)
  moreover have "\<not> nullish nanPayload"
    by (simp add: nanPayload_def)
  ultimately show "issued (snd (route criarNovoFeedback db \<lparr>params_id = [], body = nanPayload\<rparr> w))
                   = issued w @ [(insert_sql, map (ownProp nanPayload) columns)]"
    using create_accepted [of "\<lparr>params_id = [], body = nanPayload\<rparr>" db w] by simp
qed

theorem nan_rating_reaches_insert_witness:
  "\<exists>payload. ownProp payload (str ''overall_rating'') = JNum NaN
     \<and> issued (snd (route criarNovoFeedback (answering (Inr []) (Inr \<lparr>affectedRows = 1, insertId = 7\<rparr>))
                        \<lparr>params_id = [], body = payload\<rparr> w0))
         = [(insert_sql, map (ownProp payload) columns)]
     \<and> JNum NaN \<in> set (map (ownProp payload) columns)"
proof -
  obtain payload where "ownProp payload (str ''overall_rating'') = JNum NaN"
    and "\<forall>(db :: unit database) w.
           issued (snd (route criarNovoFeedback db \<lparr>params_id = [], body = payload\<rparr> w))
           = issued w @ [(insert_sql, map (ownProp payload) columns)]"
    and "JNum NaN \<in> set (map (ownProp payload) columns)"
    using nan_rating_reaches_insert by blast
  then show ?thesis
    by (intro exI [of _ payload]) (simp add: w0_def)
qed

text \<open>
  C10. Two create payloads that agree on the fifteen column names give the same outcome of
  \<open>criarFeedback\<close> on the same store: the same statement with the same values is issued,
  whatever other keys the payloads carry.
\<close>

theorem create_ignores_unknown_keys:
  assumes "\<not> nullish d1" and "\<not> nullish d2"
    and "\<forall>k \<in> set columns. ownProp d1 k = ownProp d2 k"
  shows "criarFeedback db d1 w = criarFeedback db d2 w
         \<and> issued (snd (criarFeedback db d1 w)) = issued w @ [(insert_sql, map (ownProp d2) columns)]"
proof -
  have eq: "map (ownProp d1) columns = map (ownProp d2) columns"
    using assms(3) by simp
  have "criarFeedback db d1 w = criarFeedback db d2 w"
    unfolding criarFeedback_def destructure_object [OF assms(1)] destructure_object [OF assms(2)] eq
    by (rule refl)
  then show ?thesis
    using criarFeedback_frame [OF assms(2), of db w] by simp
qed

theorem create_ignores_unknown_keys_witness:
  "criarFeedback (answering (Inr []) (Inr \<lparr>affectedRows = 1, insertId = 7\<rparr>)) samplePayload w0
   = criarFeedback (answering (Inr []) (Inr \<lparr>affectedRows = 1, insertId = 7\<rparr>)) paddedPayload w0"
proof -
  have "\<forall>k \<in> set columns. ownProp samplePayload k = ownProp paddedPayload k"
    by (simp add: columns_def ownProp_def samplePayload_def paddedPayload_def str_def)
  moreover have "\<not> nullish samplePayload" "\<not> nullish paddedPayload"
    by (simp_all add: samplePayload_def paddedPayload_def)
  ultimately show ?thesis
    using create_ignores_unknown_keys [of samplePayload paddedPayload] by blast
qed

section \<open>The path identifier\<close>

text \<open>An error raised by the repository carries no status of its own.\<close>

lemma buscarFeedbackPorId_error: "buscarFeedbackPorId db i w = (Inl e, w1) \<Longrightarrow> status e = None"
  by (auto simp: buscarFeedbackPorId_def split: prod.splits sum.splits)

lemma deletarFeedback_error: "deletarFeedback db i w = (Inl e, w1) \<Longrightarrow> status e = None"
  by (auto simp: deletarFeedback_def split: prod.splits sum.splits)

lemma atualizarFeedback_error: "atualizarFeedback db i d w = (Inl e, w1) \<Longrightarrow> status e = None"
  by (auto simp: atualizarFeedback_def objectKeys_def split: prod.splits sum.splits if_splits)

lemma deletarFeedback_frame:
  "issued (snd (deletarFeedback db i w)) = issued w @ [(delete_sql, [numberValue i])]"
proof -
  obtain r w1 where "dbQueryResult db delete_sql [numberValue i] w = (r, w1)"
    and "issued w1 = issued w @ [(delete_sql, [numberValue i])]"
    by (rule dbQueryResult_cases)
  then show ?thesis
    by (simp add: deletarFeedback_def split: sum.splits)
qed

lemma route_response:
  "fst (route handler db req w) =
     (case fst (handler db req w) of
        Inr resp \<Rightarrow> resp
      | Inl err \<Rightarrow>
          \<lparr>statusCode = (case status err of None \<Rightarrow> 500 | Some n \<Rightarrow> if n = 0 then 500 else n),
            json = JObj [(str ''message'',
                          JStr (if message err = [] then str ''Ocorreu um erro interno no servidor.''
                                else message err))]\<rparr>)"
  by (simp add: route_def errorMiddleware_def split: prod.splits sum.splits)

lemma catchNext_fst: "fst (catchNext label r) = fst r"
  by (simp add: catchNext_def split: prod.splits sum.splits)

lemma id_messages:
  "message getIdError \<noteq> []" "status getIdError = Some 400"
  "message updateIdError \<noteq> []" "status updateIdError = Some 400"
  "message deleteIdError \<noteq> []" "status deleteIdError = Some 400"
  "message emptyBodyError \<noteq> []" "status emptyBodyError = Some 400"
  "message emptyBodyError \<noteq> message updateIdError"
  by (simp_all add: getIdError_def updateIdError_def deleteIdError_def emptyBodyError_def str_def)

lemma errorResponse_status [simp]: "statusCode (errorResponse code msg) = code"
  by (simp add: errorResponse_def)

lemma errorResponse_inject [simp]: "errorResponse c m = errorResponse c' m' \<longleftrightarrow> c = c' \<and> m = m'"
  by (auto simp: errorResponse_def)

text \<open>Reading a feedback by id.\<close>

lemma get_invalid:
  assumes "invalidId (parseInt10 (params_id req))"
  shows "fst (route obterFeedbackPorId db req w) = errorResponse 400 (message getIdError)
         \<and> issued (snd (route obterFeedbackPorId db req w)) = issued w"
  using assms id_messages(1,2)
        handler_rejected [of obterFeedbackPorId db req w _ "obterFeedbackPorId_try db req w" getIdError w 400]
  by (simp add: obterFeedbackPorId_def obterFeedbackPorId_try_def Let_def)

lemma get_valid:
  assumes "\<not> invalidId (parseInt10 (params_id req))"
  shows "statusCode (fst (route obterFeedbackPorId db req w)) \<in> {200, 404, 500}"
    and "issued (snd (route obterFeedbackPorId db req w))
         = issued w @ [(select_sql, [numberValue (parseInt10 (params_id req))])]"
proof -
  let ?i = "parseInt10 (params_id req)"
  obtain r w1 where b: "buscarFeedbackPorId db ?i w = (r, w1)"
    by (cases "buscarFeedbackPorId db ?i w")
  have t: "obterFeedbackPorId_try db req w =
     (case r of
        Inr feedback \<Rightarrow>
          if truthy feedback then (Inr \<lparr>statusCode = 200, json = feedback\<rparr>, w1)
          else (Inl (JsError (str ''Feedback com ID '' @ numberToString ?i
                              @ str ('' n'' @ [CHR 0xE3] @ ''o encontrado.'')) (Some 404)), w1)
      | Inl error \<Rightarrow> (Inl error, w1))"
    using assms b by (simp add: obterFeedbackPorId_try_def Let_def)
  show "statusCode (fst (route obterFeedbackPorId db req w)) \<in> {200, 404, 500}"
    using buscarFeedbackPorId_error [of db ?i w _ w1] b
    by (cases r) (simp_all add: route_response obterFeedbackPorId_def catchNext_fst t)
  have "issued w1 = issued w @ [(select_sql, [numberValue ?i])]"
    using buscarFeedbackPorId_frame(1) [of db ?i w] b by simp
  then show "issued (snd (route obterFeedbackPorId db req w)) = issued w @ [(select_sql, [numberValue ?i])]"
    by (cases r) (simp_all add: route_frame obterFeedbackPorId_def catchNext_frame t)
qed

text \<open>Deleting a feedback.\<close>

lemma delete_invalid:
  assumes "invalidId (parseInt10 (params_id req))"
  shows "fst (route deletarUmFeedback db req w) = errorResponse 400 (message deleteIdError)
         \<and> issued (snd (route deletarUmFeedback db req w)) = issued w"
  using assms id_messages(5,6)
        handler_rejected [of deletarUmFeedback db req w _ "deletarUmFeedback_try db req w" deleteIdError w 400]
  by (simp add: deletarUmFeedback_def deletarUmFeedback_try_def Let_def)

lemma deletarUmFeedback_try_valid:
  assumes "\<not> invalidId (parseInt10 (params_id req))"
    and "deletarFeedback db (parseInt10 (params_id req)) w = (r, w1)"
  shows "deletarUmFeedback_try db req w =
     (case r of
        Inl error \<Rightarrow> (Inl error, w1)
      | Inr affected \<Rightarrow>
          if affected > 0
          then (Inr \<lparr>statusCode = 200,
                     json = JObj [(str ''message'',
                                   JStr (str ''Feedback com ID '' @ numberToString (parseInt10 (params_id req))
                                         @ str '' deletado com sucesso.''))]\<rparr>, w1)
          else (Inl (JsError (str ''Feedback com ID '' @ numberToString (parseInt10 (params_id req))
                              @ str ('' n'' @ [CHR 0xE3] @ ''o encontrado para dele'' @ [CHR 0xE7]
                                     @ [CHR 0xE3] @ ''o.'')) (Some 404)), w1))"
  using assms by (simp add: deletarUmFeedback_try_def Let_def)

lemma delete_valid:
  assumes "\<not> invalidId (parseInt10 (params_id req))"
  shows "statusCode (fst (route deletarUmFeedback db req w)) \<in> {200, 404, 500}"
    and "issued (snd (route deletarUmFeedback db req w))
         = issued w @ [(delete_sql, [numberValue (parseInt10 (params_id req))])]"
proof -
  let ?i = "parseInt10 (params_id req)"
  obtain r w1 where b: "deletarFeedback db ?i w = (r, w1)"
    by (cases "deletarFeedback db ?i w")
  note t = deletarUmFeedback_try_valid [OF assms b]
  show "statusCode (fst (route deletarUmFeedback db req w)) \<in> {200, 404, 500}"
    using deletarFeedback_error [of db ?i w _ w1] b
    by (cases r) (simp_all add: route_response deletarUmFeedback_def catchNext_fst t)
  have "issued w1 = issued w @ [(delete_sql, [numberValue ?i])]"
    using deletarFeedback_frame [of db ?i w] b by simp
  then show "issued (snd (route deletarUmFeedback db req w)) = issued w @ [(delete_sql, [numberValue ?i])]"
    by (cases r) (simp_all add: route_frame deletarUmFeedback_def catchNext_frame t)
qed

text \<open>Updating a feedback.\<close>

lemma update_invalid:
  assumes "invalidId (parseInt10 (params_id req))"
  shows "fst (route atualizarUmFeedback db req w) = errorResponse 400 (message updateIdError)
         \<and> issued (snd (route atualizarUmFeedback db req w)) = issued w"
  using assms id_messages(3,4)
        handler_rejected [of atualizarUmFeedback db req w _ "atualizarUmFeedback_try db req w" updateIdError w 400]
  by (simp add: atualizarUmFeedback_def atualizarUmFeedback_try_def Let_def)

lemma update_empty_body:
  assumes "\<not> invalidId (parseInt10 (params_id req))"
    and "\<not> truthy (body req) \<or> keysOf (body req) = []"
  shows "fst (route atualizarUmFeedback db req w) = errorResponse 400 (message emptyBodyError)"
  using assms id_messages(7,8)
        handler_rejected [of atualizarUmFeedback db req w _ "atualizarUmFeedback_try db req w" emptyBodyError w 400]
  by (simp add: atualizarUmFeedback_def atualizarUmFeedback_try_def Let_def)

text \<open>The \<open>try\<close> block of the update once the id and the body have passed their checks.\<close>

lemma atualizarUmFeedback_try_valid:
  assumes "\<not> invalidId (parseInt10 (params_id req))"
    and "truthy (body req)" and "keysOf (body req) \<noteq> []"
    and "atualizarFeedback db (parseInt10 (params_id req)) (body req) w = (r1, w1)"
    and "buscarFeedbackPorId db (parseInt10 (params_id req)) w1 = (r2, w2)"
  shows "atualizarUmFeedback_try db req w =
     (case r1 of
        Inl error \<Rightarrow> (Inl error, w1)
      | Inr affected \<Rightarrow>
          (case r2 of
             Inl error \<Rightarrow> (Inl error, w2)
           | Inr feedback \<Rightarrow>
               if affected > 0
               then (Inr \<lparr>statusCode = 200,
                          json = JObj [(str ''message'',
                                        JStr (updatedMessage (parseInt10 (params_id req)))),
                                       (str ''feedback'', feedback)]\<rparr>, w2)
               else if \<not> truthy feedback
               then (Inl (updateNotFoundError (parseInt10 (params_id req))), w2)
               else (Inr \<lparr>statusCode = 200,
                          json = JObj [(str ''message'',
                                        JStr (noChangeMessage (parseInt10 (params_id req)))),
                                       (str ''feedback'', feedback)]\<rparr>, w2)))"
  using assms
  by (cases r1; cases r2) (simp_all add: atualizarUmFeedback_try_def Let_def)

lemma update_valid:
  assumes "\<not> invalidId (parseInt10 (params_id req))"
    and "truthy (body req)" and "keysOf (body req) \<noteq> []"
  shows "statusCode (fst (route atualizarUmFeedback db req w)) \<in> {200, 404, 500}"
proof -
  let ?i = "parseInt10 (params_id req)"
  obtain r1 w1 where a: "atualizarFeedback db ?i (body req) w = (r1, w1)"
    by (cases "atualizarFeedback db ?i (body req) w")
  obtain r2 w2 where b: "buscarFeedbackPorId db ?i w1 = (r2, w2)"
    by (cases "buscarFeedbackPorId db ?i w1")
  show ?thesis
    using atualizarFeedback_error [of db ?i "body req" w _ w1] a
          buscarFeedbackPorId_error [of db ?i w1 _ w2] b
    by (cases r1; cases r2)
       (simp_all add: route_response atualizarUmFeedback_def catchNext_fst
                      atualizarUmFeedback_try_valid [OF assms a b] updateNotFoundError_def)
qed

text \<open>
  The gate of the three handlers: the request is refused for its identifier, with HTTP 400,
  that handler's invalid-id message and no statement issued, exactly when
  \<open>isNaN(id) || id <= 0\<close> holds of \<open>parseInt(req.params.id, 10)\<close>; otherwise reading and
  deleting call the repository with that Number.
\<close>

lemma path_id_gate:
  "(fst (route obterFeedbackPorId db req w) = errorResponse 400 (message getIdError))
     = invalidId (parseInt10 (params_id req))
   \<and> (fst (route atualizarUmFeedback db req w) = errorResponse 400 (message updateIdError))
       = invalidId (parseInt10 (params_id req))
   \<and> (fst (route deletarUmFeedback db req w) = errorResponse 400 (message deleteIdError))
       = invalidId (parseInt10 (params_id req))
   \<and> (invalidId (parseInt10 (params_id req)) \<longrightarrow>
        issued (snd (route obterFeedbackPorId db req w)) = issued w
        \<and> issued (snd (route atualizarUmFeedback db req w)) = issued w
        \<and> issued (snd (route deletarUmFeedback db req w)) = issued w)
   \<and> (\<not> invalidId (parseInt10 (params_id req)) \<longrightarrow>
        issued (snd (route obterFeedbackPorId db req w))
          = issued w @ [(select_sql, [numberValue (parseInt10 (params_id req))])]
        \<and> issued (snd (route deletarUmFeedback db req w))
          = issued w @ [(delete_sql, [numberValue (parseInt10 (params_id req))])])"
proof (cases "invalidId (parseInt10 (params_id req))")
  case True
  then show ?thesis
    using get_invalid [of req db w] update_invalid [of req db w] delete_invalid [of req db w]
    by simp
next
  case False
  have g: "fst (route obterFeedbackPorId db req w) \<noteq> errorResponse 400 (message getIdError)"
    using get_valid(1) [OF False, of db w] by auto
  have d: "fst (route deletarUmFeedback db req w) \<noteq> errorResponse 400 (message deleteIdError)"
    using delete_valid(1) [OF False, of db w] by auto
  have u: "fst (route atualizarUmFeedback db req w) \<noteq> errorResponse 400 (message updateIdError)"
  proof (cases "truthy (body req) \<and> keysOf (body req) \<noteq> []")
    case True
    then show ?thesis
      using update_valid [OF False, of db w] by auto
  next
    case nonempty: False
    then show ?thesis
      using update_empty_body [OF False, of db w] id_messages(9) by auto
  qed
  show ?thesis
    using False g d u get_valid(2) [OF False, of db w] delete_valid(2) [OF False, of db w]
    by simp
qed

text \<open>\<open>parseInt\<close> on the identifiers of the scenarios.\<close>

lemma parseInt10_samples:
  "parseInt10 (str ''abc'') = IntNaN" "parseInt10 (str ''0'') = IntFinite 0"
  "parseInt10 (str ''-5'') = IntFinite (- 5)" "parseInt10 (str ''42'') = IntFinite 42"
  "parseInt10 (str ''3'') = IntFinite 3" "parseInt10 (str ''999999'') = IntFinite 999999"
  "parseInt10 (str ''12abc'') = IntFinite 12" "parseInt10 (str ''1.5'') = IntFinite 1"
  "parseInt10 (str ''3 OR 1=1'') = IntFinite 3"
  by (simp_all add: parseInt10_def Let_def str_def isWhiteSpace_def isDigit_def digitsValue_def
                    number_exact)

text \<open>
  Past \<open>2 ^ 53\<close> the Number is not the integer written: \<open>9007199254740993\<close> is read as
  \<open>9007199254740992\<close>.
\<close>

lemma bits_eq: "2 ^ k \<le> n \<Longrightarrow> n < 2 ^ Suc k \<Longrightarrow> bits n = Suc k"
proof (induction k arbitrary: n)
  case 0
  then have "n = 1" by simp
  then show ?case by (simp add: bits.simps)
next
  case (Suc k)
  have "2 ^ k \<le> n div 2" "n div 2 < 2 ^ Suc k"
    using Suc.prems by auto
  then have "bits (n div 2) = Suc k" by (rule Suc.IH)
  moreover have "n \<noteq> 0"
  proof -
    have "(0::nat) < 2 ^ Suc k" by simp
    with Suc.prems(1) show ?thesis by linarith
  qed
  ultimately show ?case by (subst bits.simps) simp
qed

lemma parseInt10_rounds:
  "parseInt10 (str ''9007199254740993'') = IntFinite 9007199254740992"
proof -
  have "bits 9007199254740993 = Suc 53"
    by (rule bits_eq) simp_all
  then have "roundDouble 9007199254740993 = Some 9007199254740992"
    by (simp add: roundDouble_def Let_def)
  then have "number 9007199254740993 = IntFinite 9007199254740992"
    by (simp add: number_def)
  then show ?thesis
    by (simp add: parseInt10_def Let_def str_def isWhiteSpace_def isDigit_def digitsValue_def)
qed

text \<open>A Number from \<open>10 ^ 21\<close> on is written with an exponent.\<close>

lemma numberToString_samples:
  "numberToString (IntFinite 3) = str ''3''"
  "numberToString (IntFinite 12) = str ''12''"
  "numberToString IntInfinity = str ''Infinity''"
  by (simp_all add: numberToString_def positiveToString_def Let_def digitsOf.simps roundDouble_exact
                    shortestFrom.simps str_def)

lemma number_large: "number (10 ^ 21) = IntFinite (10 ^ 21)"
proof -
  have "bits (10 ^ 21) = Suc 69"
    by (rule bits_eq; simp)
  then show ?thesis
    by (simp add: number_def roundDouble_def Let_def)
qed

lemma numberToString_large: "numberToString (IntFinite (10 ^ 21)) = str ''1e+21''"
proof -
  have b: "bits (10 ^ 21) = Suc 69" "bits (10 ^ 22) = Suc 73" "bits (2 * 10 ^ 21) = Suc 70"
    by (rule bits_eq; simp)+
  have r: "roundDouble (10 ^ 21) = Some (10 ^ 21)" "roundDouble (10 ^ 22) = Some (10 ^ 22)"
    "roundDouble (2 * 10 ^ 21) = Some (2 * 10 ^ 21)"
    using b by (simp_all add: roundDouble_def Let_def)
  have len: "length (digitsOf (10 ^ 21)) = 22"
    by (simp add: digitsOf.simps)
  have sf: "shortestFrom (10 ^ 21) 22 1 = (1, 1)"
    using r(1,3) by (subst shortestFrom.simps) (simp add: Let_def)
  have "positiveToString (10 ^ 21) = digitsOf 1 @ str ''e+'' @ digitsOf 21"
    unfolding positiveToString_def Let_def len r(2) sf by simp
  then show ?thesis
    by (simp add: numberToString_def digitsOf.simps str_def)
qed

text \<open>
  On identifiers made of decimal digits only, the gate is the one the specification words:
  such an identifier passes exactly when it is a positive integer.
\<close>

lemma digit_not_space: "isDigit c \<Longrightarrow> \<not> isWhiteSpace c"
  by (auto simp: isDigit_def isWhiteSpace_def word_le_nat_alt)

lemma digit_not_sign: "isDigit c \<Longrightarrow> c \<noteq> 0x2B \<and> c \<noteq> 0x2D"
  by (auto simp: isDigit_def word_le_nat_alt)

lemma parseInt10_numeral:
  assumes "pid \<noteq> []" and "list_all isDigit pid"
  shows "parseInt10 pid = number (int (digitsValue pid))"
proof -
  obtain c cs where pid: "pid = c # cs" using assms(1) by (cases pid) auto
  then have c: "isDigit c" using assms(2) by simp
  have "dropWhile isWhiteSpace pid = pid"
    using pid digit_not_space [OF c] by simp
  moreover have "takeWhile isDigit pid = pid"
    using assms(2) by (simp add: list_all_iff)
  ultimately show ?thesis
    using pid digit_not_sign [OF c] by (simp add: parseInt10_def Let_def)
qed

lemma digit_value_zero: "isDigit c \<Longrightarrow> (unat c - 48 = 0) = (c = 0x30)"
proof -
  assume "isDigit c"
  then have "48 \<le> unat c"
    by (simp add: isDigit_def word_le_nat_alt)
  moreover have "(unat c = 48) = (c = 0x30)"
    by (simp add: word_unat_eq_iff)
  ultimately show ?thesis by auto
qed

lemma foldl_digits_zero:
  "list_all isDigit z \<Longrightarrow>
   (foldl (\<lambda>a c. 10 * a + (unat c - 48)) a z = 0) = (a = 0 \<and> list_all (\<lambda>c. c = 0x30) z)"
proof (induction z arbitrary: a)
  case Nil
  then show ?case by simp
next
  case (Cons c z)
  then show ?case using digit_value_zero [of c] by auto
qed

lemma bits_lower: "0 < n \<Longrightarrow> 2 ^ (bits n - 1) \<le> n"
proof (induction n rule: bits.induct)
  case (1 n)
  show ?case
  proof (cases "n div 2 = 0")
    case True
    then have "bits n = 1" using "1.prems" by (simp add: bits.simps [of n] bits.simps [of 0])
    then show ?thesis using "1.prems" by simp
  next
    case False
    then have "2 ^ (bits (n div 2) - 1) \<le> n div 2"
      using "1.IH" "1.prems" by simp
    moreover have "0 < bits (n div 2)" using False by (simp add: bits.simps [of "n div 2"])
    moreover have "bits n = Suc (bits (n div 2))" using "1.prems" by (simp add: bits.simps [of n])
    ultimately have "2 * 2 ^ (bits (n div 2) - 1) \<le> n" by linarith
    then show ?thesis
      using \<open>bits n = Suc (bits (n div 2))\<close> \<open>0 < bits (n div 2)\<close>
      by (cases "bits (n div 2)") simp_all
  qed
qed

lemma roundDouble_positive:
  assumes "0 < n" and "roundDouble n = Some v"
  shows "0 < v"
proof -
  let ?e = "bits n - 53"
  have "(2::nat) ^ ?e \<le> 2 ^ (bits n - 1)"
    by (rule power_increasing) simp_all
  then have "2 ^ ?e \<le> n"
    using bits_lower [OF assms(1)] by linarith
  then have "0 < n div 2 ^ ?e"
    by (simp add: div_greater_zero_iff)
  then show ?thesis
    using assms(2) by (auto simp: roundDouble_def Let_def split: if_splits)
qed

lemma number_sign: "invalidId (number (int m)) = (m = 0)"
proof (cases "m = 0")
  case True
  then show ?thesis by (simp add: number_exact invalidId_def)
next
  case False
  then show ?thesis
    using roundDouble_positive [of m]
    by (auto simp: number_def invalidId_def split: option.splits)
qed

lemma numeral_ids_as_specified:
  assumes "pid \<noteq> []" and "list_all isDigit pid"
  shows "invalidId (parseInt10 pid) = (\<not> positiveInteger pid)"
proof -
  have "(digitsValue pid = 0) = list_all (\<lambda>c. c = 0x30) pid"
    using foldl_digits_zero [OF assms(2), of 0] by (simp add: digitsValue_def)
  moreover have "list_ex (\<lambda>c. c \<noteq> 0x30) pid = (\<not> list_all (\<lambda>c. c = 0x30) pid)"
    by (simp add: list_ex_iff list_all_iff)
  ultimately show ?thesis
    using assms by (simp add: parseInt10_numeral number_sign positiveInteger_def)
qed

text \<open>
  An integer of \<open>2 ^ 1024\<close> or more is read as Infinity, which the gate lets through:
  \<open>Infinity <= 0\<close> is false.
\<close>

lemma bits_upper: "n < 2 ^ bits n"
proof (induction n rule: bits.induct)
  case (1 n)
  show ?case
  proof (cases "n = 0")
    case True
    then show ?thesis by simp
  next
    case False
    then have "n div 2 < 2 ^ bits (n div 2)" by (rule "1.IH")
    moreover have "bits n = Suc (bits (n div 2))" using False by (simp add: bits.simps [of n])
    ultimately show ?thesis by simp
  qed
qed

lemma roundDouble_overflow:
  assumes "2 ^ 1024 \<le> n"
  shows "roundDouble n = None"
proof -
  let ?e = "bits n - 53"
  have pos: "0 < n"
  proof -
    have "(0::nat) < 2 ^ 1024" by simp
    with assms show ?thesis by linarith
  qed
  have big: "1024 < bits n"
  proof (rule ccontr)
    assume "\<not> 1024 < bits n"
    then have "(2::nat) ^ bits n \<le> 2 ^ 1024" by (intro power_increasing) simp_all
    with bits_upper [of n] assms show False by linarith
  qed
  have "(2::nat) ^ 1024 \<le> 2 ^ (bits n - 1)"
    using big by (intro power_increasing) simp_all
  also have split: "(2::nat) ^ (bits n - 1) = 2 ^ 52 * 2 ^ ?e"
  proof -
    have "bits n - 1 = 52 + ?e" using big by simp
    then show ?thesis by (simp only: power_add)
  qed
  also have "\<dots> \<le> (n div 2 ^ ?e) * 2 ^ ?e"
  proof -
    have "2 ^ 52 * 2 ^ ?e \<le> n"
      using bits_lower [OF pos] split by simp
    then have "(2 ^ 52 * 2 ^ ?e) div 2 ^ ?e \<le> n div 2 ^ ?e"
      by (rule div_le_mono)
    then have "2 ^ 52 \<le> n div 2 ^ ?e" by simp
    then show ?thesis by (rule mult_le_mono1)
  qed
  finally have "2 ^ 1024 \<le> (n div 2 ^ ?e) * 2 ^ ?e" .
  moreover have "(n div 2 ^ ?e) * 2 ^ ?e \<le> (n div 2 ^ ?e + 1) * 2 ^ ?e"
    by simp
  ultimately show ?thesis
    unfolding roundDouble_def Let_def
    by (auto simp del: power_numeral simp: not_less)
qed

lemma number_overflow: "2 ^ 1024 \<le> i \<Longrightarrow> number i = IntInfinity"
proof -
  assume a: "2 ^ 1024 \<le> i"
  have "(0::int) < 2 ^ 1024" by simp
  with a have "0 \<le> i" by linarith
  moreover have "(2::nat) ^ 1024 \<le> nat i"
    using a by (simp add: le_nat_iff flip: of_nat_power)
  ultimately show ?thesis
    using roundDouble_overflow [of "nat i"] by (simp add: number_def)
qed

lemma infinity_passes: "\<not> invalidId IntInfinity"
  by (simp add: invalidId_def)

lemma numberValue_IntFinite: "numberValue (IntFinite i) = intNum i"
  by (simp add: numberValue_def intNum_def)

text \<open>
  C5 fails on the code. The handlers test \<open>parseInt\<close> of the identifier, which reads the
  leading digits and ignores the rest: \<open>12abc\<close> and \<open>1.5\<close> are not positive integers, and yet
  \<open>GET /feedbacks/12abc\<close> reads the feedback of id 12 and \<open>DELETE /feedbacks/1.5\<close> deletes the
  feedback of id 1, with status 200 and a statement issued, where the specification asks
  for 400 before any repository call.
\<close>

theorem lenient_path_id_accepted:
  "\<not> positiveInteger (str ''12abc'')
   \<and> fst (route obterFeedbackPorId (answering (Inr [sampleRow]) (Inl refused))
           \<lparr>params_id = str ''12abc'', body = JUndefined\<rparr> w0)
       = \<lparr>statusCode = 200, json = JObj sampleRow\<rparr>
   \<and> issued (snd (route obterFeedbackPorId (answering (Inr [sampleRow]) (Inl refused))
                    \<lparr>params_id = str ''12abc'', body = JUndefined\<rparr> w0))
       = [(select_sql, [intNum 12])]
   \<and> \<not> positiveInteger (str ''1.5'')
   \<and> statusCode (fst (route deletarUmFeedback (answering (Inr []) (Inr \<lparr>affectedRows = 1, insertId = 0\<rparr>))
                         \<lparr>params_id = str ''1.5'', body = JUndefined\<rparr> w0)) = 200
   \<and> issued (snd (route deletarUmFeedback (answering (Inr []) (Inr \<lparr>affectedRows = 1, insertId = 0\<rparr>))
                    \<lparr>params_id = str ''1.5'', body = JUndefined\<rparr> w0))
       = [(delete_sql, [intNum 1])]"
proof (intro conjI)
  show "\<not> positiveInteger (str ''12abc'')" "\<not> positiveInteger (str ''1.5'')"
    by (simp_all add: positiveInteger_def str_def isDigit_def)
  note run = route_response catchNext_fst dbQueryRows_def dbQueryResult_def answering_def
    invalidId_def parseInt10_samples Let_def
  show "fst (route obterFeedbackPorId (answering (Inr [sampleRow]) (Inl refused))
              \<lparr>params_id = str ''12abc'', body = JUndefined\<rparr> w0)
        = \<lparr>statusCode = 200, json = JObj sampleRow\<rparr>"
    by (simp add: run obterFeedbackPorId_def obterFeedbackPorId_try_def buscarFeedbackPorId_def)
  show "issued (snd (route obterFeedbackPorId (answering (Inr [sampleRow]) (Inl refused))
                      \<lparr>params_id = str ''12abc'', body = JUndefined\<rparr> w0))
        = [(select_sql, [intNum 12])]"
    using path_id_gate [of "answering (Inr [sampleRow]) (Inl refused)"
                           "\<lparr>params_id = str ''12abc'', body = JUndefined\<rparr>" w0]
    by (simp add: invalidId_def parseInt10_samples numberValue_IntFinite w0_def)
  show "statusCode (fst (route deletarUmFeedback (answering (Inr []) (Inr \<lparr>affectedRows = 1, insertId = 0\<rparr>))
                          \<lparr>params_id = str ''1.5'', body = JUndefined\<rparr> w0)) = 200"
    by (simp add: run deletarUmFeedback_def deletarUmFeedback_try_def deletarFeedback_def)
  show "issued (snd (route deletarUmFeedback (answering (Inr []) (Inr \<lparr>affectedRows = 1, insertId = 0\<rparr>))
                      \<lparr>params_id = str ''1.5'', body = JUndefined\<rparr> w0))
        = [(delete_sql, [intNum 1])]"
    using path_id_gate [of "answering (Inr []) (Inr \<lparr>affectedRows = 1, insertId = 0\<rparr>)"
                           "\<lparr>params_id = str ''1.5'', body = JUndefined\<rparr>" w0]
    by (simp add: invalidId_def parseInt10_samples numberValue_IntFinite w0_def)
qed

theorem lenient_path_id_accepted_witness:
  "statusCode (fst (route obterFeedbackPorId (answering (Inr [sampleRow]) (Inl refused))
                     \<lparr>params_id = str ''12abc'', body = JUndefined\<rparr> w0)) = 200
   \<and> json (fst (route obterFeedbackPorId (answering (Inr [sampleRow]) (Inl refused))
                  \<lparr>params_id = str ''12abc'', body = JUndefined\<rparr> w0)) = JObj sampleRow"
  using lenient_path_id_accepted by simp

section \<open>The update\<close>

lemma atualizarFeedback_answered:
  assumes "\<not> nullish d" and "keysOf d \<noteq> []"
    and "query_result db (update_sql (keysOf d)) (map (ownProp d) (keysOf d) @ [numberValue i]) (store w)
         = (Inr hdr, s1)"
  obtains w1 where "atualizarFeedback db i d w = (Inr (affectedRows hdr), w1)" and "store w1 = s1"
proof -
  obtain r w' where "dbQueryResult db (update_sql (keysOf d)) (map (ownProp d) (keysOf d) @ [numberValue i]) w
                     = (r, w')"
    and "r = fst (query_result db (update_sql (keysOf d)) (map (ownProp d) (keysOf d) @ [numberValue i]) (store w))"
    and "store w' = snd (query_result db (update_sql (keysOf d)) (map (ownProp d) (keysOf d) @ [numberValue i]) (store w))"
    by (rule dbQueryResult_cases)
  with assms have "\<exists>w1. atualizarFeedback db i d w = (Inr (affectedRows hdr), w1) \<and> store w1 = s1"
    by (simp add: atualizarFeedback_def objectKeys_def)
  with that show thesis by blast
qed

lemma update_messages:
  "message (updateNotFoundError i) \<noteq> []" "status (updateNotFoundError i) = Some 404"
  by (simp_all add: updateNotFoundError_def str_def)

text \<open>
  What the update handler answers, for an id and a body that pass their checks, on a store
  that answers the UPDATE with its count of affected rows and the following SELECT by id
  with rows. The record of the first case is whatever the read-back finds: null when it
  finds none.
\<close>

lemma atualizarUmFeedback_outcomes:
  assumes "parseInt10 (params_id req) = ident" and "\<not> invalidId ident"
    and "truthy (body req)" and "keysOf (body req) \<noteq> []"
    and "query_result db (update_sql (keysOf (body req)))
           (map (ownProp (body req)) (keysOf (body req)) @ [numberValue ident]) (store w) = (Inr hdr, s1)"
    and "fst (query_rows db select_sql [numberValue ident] s1) = Inr rows"
  shows "fst (route atualizarUmFeedback db req w) =
     (if 0 < affectedRows hdr
      then \<lparr>statusCode = 200,
            json = JObj [(str ''message'', JStr (updatedMessage ident)),
                         (str ''feedback'', (case rows of [] \<Rightarrow> JNull | r # rest \<Rightarrow> JObj r))]\<rparr>
      else if rows = [] then errorResponse 404 (message (updateNotFoundError ident))
      else \<lparr>statusCode = 200,
            json = JObj [(str ''message'', JStr (noChangeMessage ident)),
                         (str ''feedback'', JObj (hd rows))]\<rparr>)"
proof -
  have p: "\<not> invalidId (parseInt10 (params_id req))"
    using assms(1,2) by simp
  obtain w1 where a: "atualizarFeedback db ident (body req) w = (Inr (affectedRows hdr), w1)"
    and s: "store w1 = s1"
    using atualizarFeedback_answered [OF truthy_not_nullish [OF assms(3)] assms(4,5)] by blast
  obtain r2 w2 where b: "buscarFeedbackPorId db ident w1 = (r2, w2)"
    by (cases "buscarFeedbackPorId db ident w1")
  have r2: "r2 = Inr (case rows of [] \<Rightarrow> JNull | r # rest \<Rightarrow> JObj r)"
    using buscarFeedbackPorId_rows [of db ident w1 rows] assms(6) s b by simp
  have "atualizarUmFeedback_try db req w =
     (if 0 < affectedRows hdr
      then (Inr \<lparr>statusCode = 200,
                 json = JObj [(str ''message'', JStr (updatedMessage ident)),
                              (str ''feedback'', (case rows of [] \<Rightarrow> JNull | r # rest \<Rightarrow> JObj r))]\<rparr>, w2)
      else if rows = [] then (Inl (updateNotFoundError ident), w2)
      else (Inr \<lparr>statusCode = 200,
                 json = JObj [(str ''message'', JStr (noChangeMessage ident)),
                              (str ''feedback'', JObj (hd rows))]\<rparr>, w2))"
    using atualizarUmFeedback_try_valid [OF p assms(3,4), of db w "Inr (affectedRows hdr)" w1 r2 w2]
          a b r2 assms(1)
    by (cases rows) simp_all
  then show ?thesis
    using update_messages [of ident]
    by (simp add: route_response atualizarUmFeedback_def catchNext_fst errorResponse_def)
qed

text \<open>
  C3 fails on the code in its first case. On a store that holds a feedback under id 3,
  \<open>PUT /feedbacks/3\<close> with the body \<open>{"id_feedback": 99}\<close> affects one row, and the read-back
  by id 3 that follows finds none: the handler answers 200 with the success message and
  \<open>feedback: null\<close>, neither the updated record nor 404. The branch for no affected row
  tests the read-back for null; this one does not.
\<close>

theorem update_moving_id_answers_null:
  "fst (route obterFeedbackPorId renumberingStore \<lparr>params_id = str ''3'', body = JUndefined\<rparr> holdingSample)
     = \<lparr>statusCode = 200, json = JObj sampleRow\<rparr>
   \<and> fst (route atualizarUmFeedback renumberingStore \<lparr>params_id = str ''3'', body = renumberPatch\<rparr>
           holdingSample)
     = \<lparr>statusCode = 200,
        json = JObj [(str ''message'', JStr (updatedMessage (IntFinite 3))), (str ''feedback'', JNull)]\<rparr>"
proof (intro conjI)
  show "fst (route obterFeedbackPorId renumberingStore \<lparr>params_id = str ''3'', body = JUndefined\<rparr>
              holdingSample)
        = \<lparr>statusCode = 200, json = JObj sampleRow\<rparr>"
    by (simp add: route_response catchNext_fst dbQueryRows_def renumberingStore_def holdingSample_def
                  invalidId_def parseInt10_samples Let_def obterFeedbackPorId_def
                  obterFeedbackPorId_try_def buscarFeedbackPorId_def)
  have k: "truthy renumberPatch" "keysOf renumberPatch \<noteq> []"
    by (simp_all add: renumberPatch_def keysOf_def)
  show "fst (route atualizarUmFeedback renumberingStore \<lparr>params_id = str ''3'', body = renumberPatch\<rparr>
              holdingSample)
        = \<lparr>statusCode = 200,
           json = JObj [(str ''message'', JStr (updatedMessage (IntFinite 3))), (str ''feedback'', JNull)]\<rparr>"
    using atualizarUmFeedback_outcomes
            [of "\<lparr>params_id = str ''3'', body = renumberPatch\<rparr>" "IntFinite 3" renumberingStore
                holdingSample "\<lparr>affectedRows = 1, insertId = 0\<rparr>" "[]" "[]"] k
    by (simp add: parseInt10_samples invalidId_def renumberingStore_def holdingSample_def)
qed

theorem update_moving_id_answers_null_witness:
  "statusCode (fst (route atualizarUmFeedback renumberingStore
                     \<lparr>params_id = str ''3'', body = renumberPatch\<rparr> holdingSample)) = 200
   \<and> json (fst (route atualizarUmFeedback renumberingStore
                  \<lparr>params_id = str ''3'', body = renumberPatch\<rparr> holdingSample))
     = JObj [(str ''message'', JStr (updatedMessage (IntFinite 3))), (str ''feedback'', JNull)]"
  using update_moving_id_answers_null by simp

section \<open>The text of the UPDATE statement\<close>

lemma join_contains: "x \<in> set xs \<Longrightarrow> \<exists>pre post. join sep xs = pre @ x @ post"
proof (induction sep xs rule: join.induct)
  case (1 sep)
  then show ?case by simp
next
  case (2 sep y)
  then have "join sep [y] = [] @ x @ []" by simp
  then show ?case by blast
next
  case (3 sep y z zs)
  show ?case
  proof (cases "x = y")
    case True
    then have "join sep (y # z # zs) = [] @ x @ (sep @ join sep (z # zs))" by simp
    then show ?thesis by blast
  next
    case False
    with 3 obtain pre post where "join sep (z # zs) = pre @ x @ post" by auto
    then have "join sep (y # z # zs) = (y @ sep @ pre) @ x @ post" by simp
    then show ?thesis by blast
  qed
qed

lemma update_sql_contains:
  assumes "k \<in> set ks"
  shows "\<exists>pre post. update_sql ks = pre @ str [CHR 0x60] @ k @ str ([CHR 0x60] @ '' = ?'') @ post"
proof -
  have "str [CHR 0x60] @ k @ str ([CHR 0x60] @ '' = ?'')
        \<in> set (map (\<lambda>field. str [CHR 0x60] @ field @ str ([CHR 0x60] @ '' = ?'')) ks)"
    using assms by simp
  then obtain pre post where
    "setClause ks = pre @ (str [CHR 0x60] @ k @ str ([CHR 0x60] @ '' = ?'')) @ post"
    unfolding setClause_def using join_contains by blast
  then have "update_sql ks = (str ''UPDATE feedback_users SET '' @ pre)
               @ str [CHR 0x60] @ k @ str ([CHR 0x60] @ '' = ?'')
               @ (post @ str '' WHERE id_feedback = ?'')"
    by (simp add: update_sql_def)
  then show ?thesis by blast
qed

lemma atualizarFeedback_frame:
  assumes "\<not> nullish d" and "keysOf d \<noteq> []"
  shows "issued (snd (atualizarFeedback db i d w))
         = issued w @ [(update_sql (keysOf d), map (ownProp d) (keysOf d) @ [numberValue i])]"
proof -
  obtain r w1 where "dbQueryResult db (update_sql (keysOf d)) (map (ownProp d) (keysOf d) @ [numberValue i]) w
                     = (r, w1)"
    and "issued w1 = issued w @ [(update_sql (keysOf d), map (ownProp d) (keysOf d) @ [numberValue i])]"
    by (rule dbQueryResult_cases)
  with assms show ?thesis
    by (simp add: atualizarFeedback_def objectKeys_def split: sum.splits)
qed

text \<open>
  C2, as the code has it. \<open>atualizarFeedback\<close> validates no field name: every key of the
  caller's object, whatever it is, stands verbatim between backticks in the text of the one
  UPDATE statement it issues; the field values and the id are its bound parameters.
\<close>

theorem update_interpolates_every_key:
  assumes "\<not> nullish feedbackData" and "k \<in> set (keysOf feedbackData)"
  shows "\<exists>pre post.
           issued (snd (atualizarFeedback db ident feedbackData w))
           = issued w @ [(pre @ str [CHR 0x60] @ k @ str ([CHR 0x60] @ '' = ?'') @ post,
                          map (ownProp feedbackData) (keysOf feedbackData) @ [numberValue ident])]"
proof -
  have "keysOf feedbackData \<noteq> []"
    using assms(2) by auto
  then have "issued (snd (atualizarFeedback db ident feedbackData w))
             = issued w @ [(update_sql (keysOf feedbackData),
                            map (ownProp feedbackData) (keysOf feedbackData) @ [numberValue ident])]"
    using atualizarFeedback_frame [OF assms(1)] by blast
  then show ?thesis
    using update_sql_contains [OF assms(2)] by metis
qed

theorem update_interpolates_every_key_witness:
  "\<exists>pre post.
     issued (snd (atualizarFeedback (answering (Inr []) (Inr \<lparr>affectedRows = 1, insertId = 0\<rparr>))
                    (IntFinite 3) injectionPatch w0))
     = [(pre @ str [CHR 0x60] @ injectionKey @ str ([CHR 0x60] @ '' = ?'') @ post,
         [JStr (str ''noisy''), intNum 3])]"
proof -
  have "\<not> nullish injectionPatch" "injectionKey \<in> set (keysOf injectionPatch)"
       "keysOf injectionPatch = [injectionKey]"
       "ownProp injectionPatch injectionKey = JStr (str ''noisy'')"
    by (simp_all add: injectionPatch_def keysOf_def ownProp_def)
  then show ?thesis
    using update_interpolates_every_key
            [of injectionPatch injectionKey
                "answering (Inr []) (Inr \<lparr>affectedRows = 1, insertId = 0\<rparr>)" "IntFinite 3" w0]
    by (simp add: w0_def numberValue_IntFinite)
qed

text \<open>
  C2, as stated, fails. A PUT whose body has the one key \<open>bus_line` = 'x', `comment\<close>, which
  is none of the column names, passes the handler and the repository unchecked, and the
  statement sent to the store is
  \<open>UPDATE feedback_users SET `bus_line` = 'x', `comment` = ? WHERE id_feedback = ?\<close>.
\<close>

theorem update_key_injection_counterexample:
  "injectionKey \<notin> set columns
   \<and> issued (snd (route atualizarUmFeedback (answering (Inr [sampleRow]) (Inr \<lparr>affectedRows = 1, insertId = 0\<rparr>))
                    \<lparr>params_id = str ''3'', body = injectionPatch\<rparr> w0))
     = [(str (''UPDATE feedback_users SET '' @ [CHR 0x60] @ ''bus_line'' @ [CHR 0x60] @ '' = ''
              @ [CHR 0x27] @ ''x'' @ [CHR 0x27] @ '', '' @ [CHR 0x60] @ ''comment'' @ [CHR 0x60]
              @ '' = ? WHERE id_feedback = ?''),
         [JStr (str ''noisy''), intNum 3]),
        (select_sql, [intNum 3])]"
proof
  show "injectionKey \<notin> set columns"
    by (simp add: injectionKey_def columns_def str_def)
  have p: "\<not> invalidId (parseInt10 (str ''3''))" "parseInt10 (str ''3'') = IntFinite 3"
    by (simp_all add: invalidId_def parseInt10_samples)
  have k: "keysOf injectionPatch = [injectionKey]" "\<not> nullish injectionPatch" "truthy injectionPatch"
          "ownProp injectionPatch injectionKey = JStr (str ''noisy'')"
    by (simp_all add: injectionPatch_def keysOf_def ownProp_def)
  have u: "update_sql [injectionKey]
           = str (''UPDATE feedback_users SET '' @ [CHR 0x60] @ ''bus_line'' @ [CHR 0x60] @ '' = ''
                  @ [CHR 0x27] @ ''x'' @ [CHR 0x27] @ '', '' @ [CHR 0x60] @ ''comment'' @ [CHR 0x60]
                  @ '' = ? WHERE id_feedback = ?'')"
    by (simp add: update_sql_def setClause_def injectionKey_def str_def)
  let ?db = "answering (Inr [sampleRow]) (Inr \<lparr>affectedRows = 1, insertId = 0\<rparr>)"
  let ?req = "\<lparr>params_id = str ''3'', body = injectionPatch\<rparr>"
  obtain r1 w1 where a: "atualizarFeedback ?db (IntFinite 3) injectionPatch w0 = (r1, w1)"
    by (cases "atualizarFeedback ?db (IntFinite 3) injectionPatch w0")
  obtain r2 w2 where b: "buscarFeedbackPorId ?db (IntFinite 3) w1 = (r2, w2)"
    by (cases "buscarFeedbackPorId ?db (IntFinite 3) w1")
  have i1: "issued w1 = [(update_sql [injectionKey], [JStr (str ''noisy''), intNum 3])]"
    using atualizarFeedback_frame [of injectionPatch ?db "IntFinite 3" w0] a k
    by (simp add: w0_def numberValue_IntFinite)
  have i2: "issued w2 = issued w1 @ [(select_sql, [intNum 3])]"
    using buscarFeedbackPorId_frame(1) [of ?db "IntFinite 3" w1] b by (simp add: numberValue_IntFinite)
  have r1: "r1 = Inr 1"
    using a k by (simp add: atualizarFeedback_def objectKeys_def dbQueryResult_def answering_def)
  have r2: "r2 = Inr (JObj sampleRow)"
    using buscarFeedbackPorId_rows [of ?db "IntFinite 3" w1 "[sampleRow]"] b by (simp add: answering_def)
  have "issued (snd (atualizarUmFeedback_try ?db ?req w0)) = issued w2"
    using atualizarUmFeedback_try_valid [of ?req ?db w0 r1 w1 r2 w2] p k a b r1 r2 by simp
  then show "issued (snd (route atualizarUmFeedback ?db ?req w0))
     = [(str (''UPDATE feedback_users SET '' @ [CHR 0x60] @ ''bus_line'' @ [CHR 0x60] @ '' = ''
              @ [CHR 0x27] @ ''x'' @ [CHR 0x27] @ '', '' @ [CHR 0x60] @ ''comment'' @ [CHR 0x60]
              @ '' = ? WHERE id_feedback = ?''),
         [JStr (str ''noisy''), intNum 3]),
        (select_sql, [intNum 3])]"
    by (simp add: route_frame atualizarUmFeedback_def catchNext_frame i1 i2 u)
qed

section \<open>Driver errors\<close>

lemma str_Nil_iff: "str s = [] \<longleftrightarrow> s = []"
  by (simp add: str_def)

text \<open>
  What \<open>criarFeedback\<close> does with a driver error: the error object is logged, and the error
  thrown to the handler has the driver's message after a fixed prefix.
\<close>

lemma criarFeedback_driver_failure:
  assumes "\<not> nullish d"
    and "fst (query_result db insert_sql (map (ownProp d) columns) (store w)) = Inl error"
  shows "fst (criarFeedback db d w)
         = Inl (JsError (str ''Erro ao salvar feedback no banco de dados: '' @ message error) None)"
    and "console (snd (criarFeedback db d w))
         = console w @ [ConsoleError [LogText (str ''[Model Error] Falha ao inserir feedback:''),
                                      LogError error]]"
proof -
  obtain r w1 where "dbQueryResult db insert_sql (map (ownProp d) columns) w = (r, w1)"
    and "r = fst (query_result db insert_sql (map (ownProp d) columns) (store w))"
    and "console w1 = console w"
    by (cases "query_result db insert_sql (map (ownProp d) columns) (store w)")
       (simp add: dbQueryResult_def)
  with assms show
    "fst (criarFeedback db d w)
     = Inl (JsError (str ''Erro ao salvar feedback no banco de dados: '' @ message error) None)"
    "console (snd (criarFeedback db d w))
     = console w @ [ConsoleError [LogText (str ''[Model Error] Falha ao inserir feedback:''),
                                  LogError error]]"
    by (simp_all add: criarFeedback_def destructure_object consoleError_def)
qed

text \<open>
  C1 fails on the code. When the driver rejects a statement, each repository function throws
  a new Error whose message is a fixed prefix followed by the driver's own message, and the
  error middleware sends that message to the client with status 500. Here the INSERT of a
  \<open>bus_number\<close> of 51 characters is rejected with \<open>Data too long for column 'bus_number' at
  row 1\<close>, and the other four operations run on a refused connection: every response is 500
  and carries the driver's text.
\<close>

theorem driver_text_reaches_client:
  "fst (route criarNovoFeedback (answering (Inl refused) (Inl tooLong))
         \<lparr>params_id = [], body = longPayload\<rparr> w0)
     = errorResponse 500 (str ''Erro ao salvar feedback no banco de dados: '' @ message tooLong)
   \<and> fst (route obterTodosFeedbacks (answering (Inl refused) (Inl refused))
           \<lparr>params_id = [], body = JUndefined\<rparr> w0)
     = errorResponse 500 (str ''Erro ao buscar feedbacks no banco de dados: '' @ message refused)
   \<and> fst (route obterFeedbackPorId (answering (Inl refused) (Inl refused))
           \<lparr>params_id = str ''3'', body = JUndefined\<rparr> w0)
     = errorResponse 500 (str ''Erro ao buscar feedback por ID no banco de dados: '' @ message refused)
   \<and> fst (route atualizarUmFeedback (answering (Inl refused) (Inl refused))
           \<lparr>params_id = str ''3'', body = samplePayload\<rparr> w0)
     = errorResponse 500 (str ''Erro ao atualizar feedback no banco de dados: '' @ message refused)
   \<and> fst (route deletarUmFeedback (answering (Inl refused) (Inl refused))
           \<lparr>params_id = str ''3'', body = JUndefined\<rparr> w0)
     = errorResponse 500 (str ''Erro ao deletar feedback no banco de dados: '' @ message refused)"
proof (intro conjI)
  note run = route_response catchNext_fst errorResponse_def dbQueryRows_def dbQueryResult_def
    answering_def invalidId_def parseInt10_samples Let_def str_Nil_iff
  have "\<not> nullish longPayload"
    "nonEmptyText (ownProp longPayload (str ''bus_number''))"
    "nonEmptyText (ownProp longPayload (str ''bus_line''))"
    "numeric (ownProp longPayload (str ''overall_rating''))"
    "numeric (ownProp longPayload (str ''safety_rating''))"
    by (simp_all add: longPayload_def nonEmptyText_def numeric_def ownProp_def str_def
                      isWhiteSpace_def intNum_def list_all_iff)
  then show "fst (route criarNovoFeedback (answering (Inl refused) (Inl tooLong))
                   \<lparr>params_id = [], body = longPayload\<rparr> w0)
             = errorResponse 500 (str ''Erro ao salvar feedback no banco de dados: '' @ message tooLong)"
    by (simp add: run criarNovoFeedback_def criarNovoFeedback_try_cases criarFeedback_def
                  destructure_object)
  show "fst (route obterTodosFeedbacks (answering (Inl refused) (Inl refused))
              \<lparr>params_id = [], body = JUndefined\<rparr> w0)
        = errorResponse 500 (str ''Erro ao buscar feedbacks no banco de dados: '' @ message refused)"
    by (simp add: run obterTodosFeedbacks_def listarFeedbacks_def)
  show "fst (route obterFeedbackPorId (answering (Inl refused) (Inl refused))
              \<lparr>params_id = str ''3'', body = JUndefined\<rparr> w0)
        = errorResponse 500 (str ''Erro ao buscar feedback por ID no banco de dados: '' @ message refused)"
    by (simp add: run obterFeedbackPorId_def obterFeedbackPorId_try_def buscarFeedbackPorId_def)
  have "truthy samplePayload" "keysOf samplePayload \<noteq> []"
    by (simp_all add: samplePayload_def keysOf_def)
  then show "fst (route atualizarUmFeedback (answering (Inl refused) (Inl refused))
                   \<lparr>params_id = str ''3'', body = samplePayload\<rparr> w0)
             = errorResponse 500 (str ''Erro ao atualizar feedback no banco de dados: '' @ message refused)"
    by (simp add: run atualizarUmFeedback_def atualizarUmFeedback_try_def atualizarFeedback_def
                  objectKeys_def truthy_not_nullish)
  show "fst (route deletarUmFeedback (answering (Inl refused) (Inl refused))
              \<lparr>params_id = str ''3'', body = JUndefined\<rparr> w0)
        = errorResponse 500 (str ''Erro ao deletar feedback no banco de dados: '' @ message refused)"
    by (simp add: run deletarUmFeedback_def deletarUmFeedback_try_def deletarFeedback_def)
qed

theorem driver_text_reaches_client_witness:
  "statusCode (fst (route criarNovoFeedback (answering (Inl refused) (Inl tooLong))
                     \<lparr>params_id = [], body = longPayload\<rparr> w0)) = 500
   \<and> json (fst (route criarNovoFeedback (answering (Inl refused) (Inl tooLong))
                  \<lparr>params_id = [], body = longPayload\<rparr> w0))
     = JObj [(str ''message'',
              JStr (str (''Erro ao salvar feedback no banco de dados: Data too long for column ''
                         @ [CHR 0x27] @ ''bus_number'' @ [CHR 0x27] @ '' at row 1'')))]"
  using driver_text_reaches_client
  by (simp add: errorResponse_def tooLong_def str_def)

end
